theory Spec2Isabelle
  imports Main "HOL-Library.List_Lexorder" "HOL-Library.Char_ord"
begin

section \<open>Relay server: sessions, questions and replies\<close>

text \<open>
  A shallow embedding of the relay server's session store (\<^verbatim>\<open>store.ts\<close>) and of its three
  handlers: question intake (\<^verbatim>\<open>routes/questions.ts\<close>), reply retrieval
  (\<^verbatim>\<open>routes/replies.ts\<close>) and the chat webhook (\<^verbatim>\<open>routes/webhook.ts\<close>).

  Strings are \<^typ>\<open>string\<close>, read as the UTF-8 encoding of the JavaScript string. Equality
  and emptiness are the same on both sides; the order on strings is the lexicographic one
  (\<^verbatim>\<open>>\<close> on JavaScript strings compares code units, which agrees with byte order on the
  ASCII timestamps \<^verbatim>\<open>toISOString\<close> produces). An optional or nullable field is an
  \<^typ>\<open>'a option\<close>.
\<close>

subsection \<open>Data model (\<^verbatim>\<open>types.ts\<close>)\<close>

type_synonym timestamp = string

datatype SessionStatus = IDLE | WAITING_USER | RESOLVED | EXPIRED | CANCELED

datatype Severity = INFO | WARNING | DANGER

datatype ReplyType = TEXT | CHOICE | CANCEL

text \<open>
  Field names are the source's, with a prefix where two interfaces share a name
  (\<^verbatim>\<open>text\<close>, \<^verbatim>\<open>created_at\<close>, \<^verbatim>\<open>type\<close>). \<^verbatim>\<open>metadata\<close> is an opaque
  JSON object that the server only passes through; it is kept as a list of key and
  serialised value. \<^verbatim>\<open>timeout_sec\<close> is a number the server stores and never reads.
\<close>

record PendingQuestion =
  message_id :: string
  q_text :: string
  choices :: "string list option"
  timeout_sec :: "int option"
  severity :: Severity
  metadata :: "(string \<times> string) list option"
  q_created_at :: timestamp

record Reply =
  reply_id :: string
  r_type :: ReplyType
  r_text :: "string option"
  choice :: "string option"
  r_created_at :: timestamp

record Session =
  session_id :: string
  status :: SessionStatus
  pending_question :: "PendingQuestion option"
  replies :: "Reply list"
  created_at :: timestamp
  updated_at :: timestamp
  owner_user_id :: "string option"

subsection \<open>JavaScript values\<close>

text \<open>
  \<^verbatim>\<open>!x\<close> on a \<^verbatim>\<open>string | undefined\<close>: true for \<^verbatim>\<open>undefined\<close>, \<^verbatim>\<open>null\<close> and the
  empty string.
\<close>

definition truthy :: "string option \<Rightarrow> bool" where
  "truthy x = (case x of None \<Rightarrow> False | Some s \<Rightarrow> s \<noteq> [])"

text \<open>
  \<^verbatim>\<open>generateMessageId()\<close> and \<^verbatim>\<open>generateReplyId()\<close> are \<^verbatim>\<open>uuidv4()\<close>, which
  returns a string of 36 characters. What the handlers can observe of such a string is
  that it is not empty, and that is all the type of generated identifiers records;
  \<open>uuid_string\<close> is the string.
\<close>

typedef uuid = "{s :: string. s \<noteq> []}"
  morphisms uuid_string make_uuid
  by (rule exI [of _ "''0''"]) simp

text \<open>
  The string built-ins the handlers call are parameters of the model: \<^verbatim>\<open>trim\<close> and
  \<^verbatim>\<open>toLowerCase\<close> follow the Unicode tables, and \<^verbatim>\<open>parseInt(s, 10)\<close> returns a
  number or \<^verbatim>\<open>NaN\<close> (here \<^term>\<open>None\<close>). Every general theorem below holds for any
  such functions; \<open>ascii_js\<close> is their behaviour on ASCII text, used to evaluate the
  handlers on concrete requests.
\<close>

record JsRuntime =
  trim :: "string \<Rightarrow> string"
  toLowerCase :: "string \<Rightarrow> string"
  parseInt :: "string \<Rightarrow> int option"

definition is_space :: "char \<Rightarrow> bool" where
  "is_space c = (c \<in> set [CHR '' '', CHR 0x09, CHR 0x0A, CHR 0x0B, CHR 0x0C, CHR 0x0D])"

definition ascii_trim :: "string \<Rightarrow> string" where
  "ascii_trim s = rev (dropWhile is_space (rev (dropWhile is_space s)))"

definition ascii_lower_char :: "char \<Rightarrow> char" where
  "ascii_lower_char c =
     (case map_of (zip ''ABCDEFGHIJKLMNOPQRSTUVWXYZ'' ''abcdefghijklmnopqrstuvwxyz'') c of
        Some d \<Rightarrow> d
      | None \<Rightarrow> c)"

definition ascii_toLowerCase :: "string \<Rightarrow> string" where
  "ascii_toLowerCase s = map ascii_lower_char s"

definition digit_value :: "char \<Rightarrow> int option" where
  "digit_value c = map_of (zip ''0123456789'' [0, 1, 2, 3, 4, 5, 6, 7, 8, 9]) c"

definition is_digit :: "char \<Rightarrow> bool" where
  "is_digit c = (digit_value c \<noteq> None)"

definition digits_value :: "string \<Rightarrow> int" where
  "digits_value ds = foldl (\<lambda>acc c. 10 * acc + (case digit_value c of Some d \<Rightarrow> d | None \<Rightarrow> 0)) 0 ds"

text \<open>
  \<^verbatim>\<open>parseInt(s, 10)\<close>: leading white space is skipped, one sign is read, then the
  longest run of decimal digits; no digit gives \<^verbatim>\<open>NaN\<close>.
\<close>

definition ascii_parseInt :: "string \<Rightarrow> int option" where
  "ascii_parseInt s =
     (let s1 = dropWhile is_space s;
          neg = (case s1 of c # _ \<Rightarrow> c = CHR ''-'' | [] \<Rightarrow> False);
          s2 = (case s1 of c # cs \<Rightarrow> if c = CHR ''-'' \<or> c = CHR ''+'' then cs else s1 | [] \<Rightarrow> s1);
          ds = takeWhile is_digit s2
      in if ds = [] then None
         else Some (if neg then - digits_value ds else digits_value ds))"

definition ascii_js :: JsRuntime where
  "ascii_js = \<lparr>trim = ascii_trim, toLowerCase = ascii_toLowerCase, parseInt = ascii_parseInt\<rparr>"

subsection \<open>The session store (\<^verbatim>\<open>store.ts\<close>)\<close>

text \<open>
  \<^verbatim>\<open>const sessions = new Map<string, Session>()\<close>. A JavaScript \<^verbatim>\<open>Map\<close> iterates in
  insertion order, and the scans below depend on that order when two timestamps are equal,
  so the store is an association list in insertion order. No entry is ever deleted or
  replaced, so a key stands for one \<^verbatim>\<open>Session\<close> object for good: the handlers mutate the
  object they hold, and the model writes the changed record back under its key
  (\<open>store_update\<close>).

  \<^verbatim>\<open>now()\<close> and the identifier generators read the environment; their results are
  arguments of the model.
\<close>

type_synonym store = "(string \<times> Session) list"

definition getSession :: "store \<Rightarrow> string \<Rightarrow> Session option" where
  "getSession sessions sessionId = map_of sessions sessionId"

definition store_update :: "store \<Rightarrow> string \<Rightarrow> Session \<Rightarrow> store" where
  "store_update sessions k s = map (\<lambda>(k', s'). if k' = k then (k', s) else (k', s')) sessions"

text \<open>
  \<^verbatim>\<open>getOrCreateSession\<close> reads the clock twice when it creates a session
  (\<open>t_created\<close>, \<open>t_updated\<close>); it returns the session and the store.
\<close>

definition getOrCreateSession ::
  "store \<Rightarrow> string \<Rightarrow> SessionStatus \<Rightarrow> string option \<Rightarrow> timestamp \<Rightarrow> timestamp \<Rightarrow> Session \<times> store" where
  "getOrCreateSession sessions sessionId initialStatus ownerUserId t_created t_updated =
     (case map_of sessions sessionId of
        Some session \<Rightarrow> (session, sessions)
      | None \<Rightarrow>
          (let session = \<lparr>session_id = sessionId, status = initialStatus,
                 pending_question = None, replies = [], created_at = t_created,
                 updated_at = t_updated, owner_user_id = ownerUserId\<rparr>
           in (session, sessions @ [(sessionId, session)])))"

definition setPendingQuestion :: "Session \<Rightarrow> PendingQuestion \<Rightarrow> timestamp \<Rightarrow> Session" where
  "setPendingQuestion session question now =
     session\<lparr>pending_question := Some question, status := WAITING_USER, updated_at := now\<rparr>"

definition addReply :: "Session \<Rightarrow> Reply \<Rightarrow> timestamp \<Rightarrow> Session" where
  "addReply session reply now =
     session\<lparr>replies := replies session @ [reply], pending_question := None,
       status := RESOLVED, updated_at := now\<rparr>"

text \<open>
  The two scans: one pass over \<^verbatim>\<open>sessions.values()\<close> that keeps the latest candidate and
  replaces it only by a strictly later \<^verbatim>\<open>updated_at\<close>. The result is a reference to a
  stored object, so the model returns the entry: the key and the session.
\<close>

fun scanWaiting :: "(string \<times> Session) option \<Rightarrow> store \<Rightarrow> (string \<times> Session) option" where
  "scanWaiting latest [] = latest"
| "scanWaiting latest ((k, session) # rest) =
     (if status session \<noteq> WAITING_USER then scanWaiting latest rest
      else (case latest of
              None \<Rightarrow> scanWaiting (Some (k, session)) rest
            | Some (k', l) \<Rightarrow>
                if updated_at session > updated_at l then scanWaiting (Some (k, session)) rest
                else scanWaiting latest rest))"

definition findMostRecentWaitingSession :: "store \<Rightarrow> (string \<times> Session) option" where
  "findMostRecentWaitingSession sessions = scanWaiting None sessions"

fun scanWaitingForUser ::
  "string \<Rightarrow> (string \<times> Session) option \<Rightarrow> store \<Rightarrow> (string \<times> Session) option" where
  "scanWaitingForUser userId latest [] = latest"
| "scanWaitingForUser userId latest ((k, session) # rest) =
     (if status session \<noteq> WAITING_USER then scanWaitingForUser userId latest rest
      else if owner_user_id session \<noteq> Some userId then scanWaitingForUser userId latest rest
      else (case latest of
              None \<Rightarrow> scanWaitingForUser userId (Some (k, session)) rest
            | Some (k', l) \<Rightarrow>
                if updated_at session > updated_at l
                then scanWaitingForUser userId (Some (k, session)) rest
                else scanWaitingForUser userId latest rest))"

definition findMostRecentWaitingSessionForUser :: "store \<Rightarrow> string \<Rightarrow> (string \<times> Session) option" where
  "findMostRecentWaitingSessionForUser sessions userId = scanWaitingForUser userId None sessions"

subsection \<open>Question intake (\<^verbatim>\<open>routes/questions.ts\<close>)\<close>

text \<open>
  \<^verbatim>\<open>req.auth\<close> as \<^verbatim>\<open>requireAuth\<close> leaves it: the handler runs only after the
  middleware has accepted the credential.
\<close>

datatype AuthMethod = static_token | cognito_jwt

record Auth =
  user_id :: string
  auth_method :: AuthMethod

text \<open>
  The JSON body. \<^verbatim>\<open>text\<close> and \<^verbatim>\<open>severity\<close> are required by the interface, but a
  body may lack them, which the handler checks: they are optional here.
\<close>

record QuestionsBody =
  body_text :: "string option"
  body_choices :: "string list option"
  body_timeout_sec :: "int option"
  body_severity :: "Severity option"
  body_metadata :: "(string \<times> string) list option"
  target_user_id :: "string option"

text \<open>
  What the handler reads from the environment, in the order it reads it: the two clock
  readings of a session's creation, \<^verbatim>\<open>generateMessageId()\<close>, the question's
  \<^verbatim>\<open>created_at\<close> and the clock reading of \<^verbatim>\<open>setPendingQuestion\<close>.
\<close>

record QuestionsEnv =
  now_created :: timestamp
  now_updated :: timestamp
  generated_message_id :: uuid
  now_question :: timestamp
  now_pending :: timestamp

text \<open>
  The responses: 400 \<^verbatim>\<open>BAD_REQUEST\<close>, 403 \<^verbatim>\<open>FORBIDDEN\<close>, 409 \<^verbatim>\<open>PENDING_EXISTS\<close>, and
  201 with \<^verbatim>\<open>session_id\<close>, \<^verbatim>\<open>message_id\<close> and \<^verbatim>\<open>status\<close>.
\<close>

datatype QuestionsResponse =
    BAD_REQUEST
  | FORBIDDEN
  | PENDING_EXISTS
  | Created string string SessionStatus

text \<open>
  The outbound push that follows a 201 is fire-and-forget and touches neither the response
  nor the session store; it is left out. The two defaults in the question record are never
  taken: the first check has already refused a body without text or severity.
\<close>

definition post_questions ::
  "store \<Rightarrow> string \<Rightarrow> Auth \<Rightarrow> QuestionsBody \<Rightarrow> QuestionsEnv \<Rightarrow> QuestionsResponse \<times> store" where
  "post_questions sessions sid auth body env =
     (if \<not> truthy (body_text body) \<or> body_severity body = None then (BAD_REQUEST, sessions)
      else
        let isCognitoAuth = (auth_method auth = cognito_jwt) in
        if isCognitoAuth \<and> truthy (target_user_id body) \<and> Some (user_id auth) \<noteq> target_user_id body
        then (FORBIDDEN, sessions)
        else
          let ownerUserId =
                (if isCognitoAuth
                 then (case target_user_id body of Some t \<Rightarrow> Some t | None \<Rightarrow> Some (user_id auth))
                 else None);
              (session, sessions1) =
                getOrCreateSession sessions sid WAITING_USER ownerUserId (now_created env) (now_updated env)
          in
            if status session = WAITING_USER \<and> pending_question session \<noteq> None
            then (PENDING_EXISTS, sessions1)
            else
              let message_id = uuid_string (generated_message_id env);
                  question = \<lparr>message_id = message_id,
                     q_text = (case body_text body of Some t \<Rightarrow> t | None \<Rightarrow> []),
                     choices = body_choices body,
                     timeout_sec = body_timeout_sec body,
                     severity = (case body_severity body of Some v \<Rightarrow> v | None \<Rightarrow> INFO),
                     metadata = body_metadata body,
                     q_created_at = now_question env\<rparr>
              in (Created sid message_id WAITING_USER,
                  store_update sessions1 sid (setPendingQuestion session question (now_pending env))))"

subsection \<open>Reply retrieval (\<^verbatim>\<open>routes/replies.ts\<close>)\<close>

text \<open>
  \<^verbatim>\<open>Math.min(Math.max(parseInt(wait_sec, 10) || 25, 0), 60)\<close>: \<^verbatim>\<open>||\<close> takes its right
  operand when the left one is falsy, which \<^verbatim>\<open>NaN\<close> and \<^verbatim>\<open>0\<close> both are. An absent
  parameter parses to \<^verbatim>\<open>NaN\<close>.
\<close>

definition waitSec :: "JsRuntime \<Rightarrow> string option \<Rightarrow> int" where
  "waitSec js wait_sec =
     (let parsed = (case wait_sec of None \<Rightarrow> None | Some s \<Rightarrow> parseInt js s);
          or25 = (case parsed of None \<Rightarrow> 25 | Some n \<Rightarrow> if n = 0 then 25 else n)
      in min (max or25 0) 60)"

text \<open>\<^verbatim>\<open>Array.prototype.findIndex\<close>; \<^term>\<open>None\<close> is its \<^verbatim>\<open>-1\<close>.\<close>

fun findIndex :: "('a \<Rightarrow> bool) \<Rightarrow> 'a list \<Rightarrow> nat option" where
  "findIndex p [] = None"
| "findIndex p (x # xs) =
     (if p x then Some 0 else (case findIndex p xs of None \<Rightarrow> None | Some i \<Rightarrow> Some (Suc i)))"

definition collectReplies :: "Reply list \<Rightarrow> string option \<Rightarrow> Reply list" where
  "collectReplies rs sinceId =
     (case sinceId of
        None \<Rightarrow> rs
      | Some since \<Rightarrow>
          if since = [] then rs
          else (case findIndex (\<lambda>r. reply_id r = since) rs of
                  Some idx \<Rightarrow> drop (idx + 1) rs
                | None \<Rightarrow> rs))"

record RepliesResponse =
  resp_session_id :: string
  resp_status :: SessionStatus
  resp_replies :: "Reply list"

record RepliesEnv =
  poll_now_created :: timestamp
  poll_now_updated :: timestamp
  date_now :: int

text \<open>
  The handler up to its first timer: it fetches or creates the session (\<^verbatim>\<open>IDLE\<close>), fixes
  the deadline in milliseconds, and answers at once when a reply is visible. The result is
  the immediate response if there is one, the deadline, and the store.
\<close>

definition get_replies ::
  "JsRuntime \<Rightarrow> store \<Rightarrow> string \<Rightarrow> string option \<Rightarrow> string option \<Rightarrow> RepliesEnv
     \<Rightarrow> RepliesResponse option \<times> int \<times> store" where
  "get_replies js sessions sid sinceId wait_sec env =
     (let (session, sessions1) =
            getOrCreateSession sessions sid IDLE None (poll_now_created env) (poll_now_updated env);
          deadline = date_now env + waitSec js wait_sec * 1000;
          immediate = collectReplies (replies session) sinceId
      in if immediate \<noteq> []
         then (Some \<lparr>resp_session_id = sid, resp_status = status session, resp_replies = immediate\<rparr>,
               deadline, sessions1)
         else (None, deadline, sessions1))"

text \<open>
  One run of the timer callback \<^verbatim>\<open>poll\<close>, a second later, on the store as it is then and
  the clock reading \<open>t\<close>: it answers when a reply is visible or the deadline has passed, and
  otherwise (\<^term>\<open>None\<close>) sets the timer again. The session object the closure holds is the
  entry under \<open>sid\<close>, which the handler created or found and nothing removes.
\<close>

definition poll :: "store \<Rightarrow> string \<Rightarrow> string option \<Rightarrow> int \<Rightarrow> int \<Rightarrow> RepliesResponse option" where
  "poll sessions sid sinceId deadline t =
     (case map_of sessions sid of
        None \<Rightarrow> None
      | Some session \<Rightarrow>
          (let rs = collectReplies (replies session) sinceId
           in if rs \<noteq> [] \<or> t \<ge> deadline
              then Some \<lparr>resp_session_id = sid, resp_status = status session, resp_replies = rs\<rparr>
              else None))"

subsection \<open>The chat webhook (\<^verbatim>\<open>routes/webhook.ts\<close>)\<close>

text \<open>
  The module's constants, read from the process environment at start-up.
\<close>

record Config =
  FIXED_USER_KEY :: string
  DDB_TABLE :: string

definition isMultiUserMode :: "Config \<Rightarrow> bool" where
  "isMultiUserMode cfg = (DDB_TABLE cfg \<noteq> [])"

text \<open>
  The fields of the payload the handler reads: \<^verbatim>\<open>userRequest.utterance\<close>,
  \<^verbatim>\<open>userRequest.user.properties.appUserId\<close>, \<^verbatim>\<open>userRequest.user.id\<close>, and the flat
  fallbacks \<^verbatim>\<open>user_key\<close> and \<^verbatim>\<open>text\<close>.
\<close>

record WebhookBody =
  utterance :: "string option"
  appUserId :: "string option"
  kakaoUserId :: "string option"
  user_key :: "string option"
  wb_text :: "string option"

text \<open>
  A directory lookup returns a user id or \<^verbatim>\<open>null\<close>, or throws (the handler catches and
  logs). The lookups, \<^verbatim>\<open>createLinkCode\<close>, \<^verbatim>\<open>generateReplyId()\<close> and the clock are the
  environment of one request. \<^verbatim>\<open>createLinkCode\<close> also keeps the code in a table of its
  own module, which no handler here reads; only the code it returns is modelled.
\<close>

datatype Lookup = Throws | Returns "string option"

record WebhookEnv =
  getUserIdByKakaoUserKey :: "string \<Rightarrow> Lookup"
  getUserIdByChatbotUserId :: "string \<Rightarrow> Lookup"
  createLinkCode :: "string \<Rightarrow> string"
  now_webhook :: timestamp
  generated_reply_id :: uuid
  now_reply :: timestamp
  now_added :: timestamp

text \<open>
  The server's state: the session store and the webhook's two diagnostic variables.
\<close>

record ServerState =
  sessions :: store
  webhookCallCount :: nat
  lastWebhookAt :: "timestamp option"

text \<open>
  The response template: the text of its one \<^verbatim>\<open>simpleText\<close> output, and the
  \<^verbatim>\<open>quickReplies\<close> when the handler sets them.
\<close>

record QuickReply =
  label :: string
  action :: string
  messageText :: string

record KakaoTemplate =
  simpleText :: string
  quickReplies :: "QuickReply list option"

definition kakaoResponse :: "string \<Rightarrow> KakaoTemplate" where
  "kakaoResponse t = \<lparr>simpleText = t, quickReplies = None\<rparr>"

text \<open>The handler's fixed texts, as UTF-8.\<close>

definition MSG_NO_USER_KEY :: string where
  "MSG_NO_USER_KEY =
     [CHR 0xEC, CHR 0x82, CHR 0xAC, CHR 0xEC, CHR 0x9A, CHR 0xA9, CHR 0xEC, CHR 0x9E, CHR 0x90]
     @ [CHR 0xEB, CHR 0xA5, CHR 0xBC]
     @ '' ''
     @ [CHR 0xEC, CHR 0x8B, CHR 0x9D, CHR 0xEB, CHR 0xB3, CHR 0x84, CHR 0xED, CHR 0x95, CHR 0xA0]
     @ '' ''
     @ [CHR 0xEC, CHR 0x88, CHR 0x98]
     @ '' ''
     @ [CHR 0xEC, CHR 0x97, CHR 0x86, CHR 0xEC, CHR 0x8A, CHR 0xB5, CHR 0xEB, CHR 0x8B, CHR 0x88]
     @ [CHR 0xEB, CHR 0x8B, CHR 0xA4]
     @ ''.''"

definition MSG_LINK_PREFIX :: string where
  "MSG_LINK_PREFIX =
     [CHR 0xEC, CHR 0x97, CHR 0xB0, CHR 0xEB, CHR 0x8F, CHR 0x99, CHR 0xEC, CHR 0x9D, CHR 0xB4]
     @ '' ''
     @ [CHR 0xED, CHR 0x95, CHR 0x84, CHR 0xEC, CHR 0x9A, CHR 0x94, CHR 0xED, CHR 0x95, CHR 0xA9]
     @ [CHR 0xEB, CHR 0x8B, CHR 0x88, CHR 0xEB, CHR 0x8B, CHR 0xA4]
     @ ''.''
     @ [CHR 0x0A, CHR 0xEC, CHR 0x97, CHR 0xB0, CHR 0xEB, CHR 0x8F, CHR 0x99]
     @ '' ''
     @ [CHR 0xEC, CHR 0xBD, CHR 0x94, CHR 0xEB, CHR 0x93, CHR 0x9C]
     @ '': ''"

definition MSG_LINK_SUFFIX :: string where
  "MSG_LINK_SUFFIX =
     [CHR 0x0A, CHR 0x0A, CHR 0xEC, CHR 0x9D, CHR 0xB4]
     @ '' ''
     @ [CHR 0xEC, CHR 0xBD, CHR 0x94, CHR 0xEB, CHR 0x93, CHR 0x9C, CHR 0xEB, CHR 0xA5, CHR 0xBC]
     @ '' Claude Code''
     @ [CHR 0xEC, CHR 0x97, CHR 0x90]
     @ '' ''
     @ [CHR 0xEC, CHR 0x95, CHR 0x8C, CHR 0xEB, CHR 0xA0, CHR 0xA4, CHR 0xEC, CHR 0xA3, CHR 0xBC]
     @ [CHR 0xEC, CHR 0x84, CHR 0xB8, CHR 0xEC, CHR 0x9A, CHR 0x94]
     @ ''.''"

definition MSG_REJECTED_USER :: string where
  "MSG_REJECTED_USER =
     [CHR 0xED, CHR 0x97, CHR 0x88, CHR 0xEC, CHR 0x9A, CHR 0xA9, CHR 0xEB, CHR 0x90, CHR 0x98]
     @ [CHR 0xEC, CHR 0xA7, CHR 0x80]
     @ '' ''
     @ [CHR 0xEC, CHR 0x95, CHR 0x8A, CHR 0xEC, CHR 0x9D, CHR 0x80]
     @ '' ''
     @ [CHR 0xEC, CHR 0x82, CHR 0xAC, CHR 0xEC, CHR 0x9A, CHR 0xA9, CHR 0xEC, CHR 0x9E, CHR 0x90]
     @ [CHR 0xEC, CHR 0x9E, CHR 0x85, CHR 0xEB, CHR 0x8B, CHR 0x88, CHR 0xEB, CHR 0x8B, CHR 0xA4]
     @ ''.''"

definition MSG_NO_WAITING_SESSION :: string where
  "MSG_NO_WAITING_SESSION =
     [CHR 0xED, CHR 0x98, CHR 0x84, CHR 0xEC, CHR 0x9E, CHR 0xAC]
     @ '' ''
     @ [CHR 0xEB, CHR 0x8C, CHR 0x80, CHR 0xEA, CHR 0xB8, CHR 0xB0]
     @ '' ''
     @ [CHR 0xEC, CHR 0xA4, CHR 0x91, CHR 0xEC, CHR 0x9D, CHR 0xB8]
     @ '' ''
     @ [CHR 0xEC, CHR 0xA7, CHR 0x88, CHR 0xEB, CHR 0xAC, CHR 0xB8, CHR 0xEC, CHR 0x9D, CHR 0xB4]
     @ '' ''
     @ [CHR 0xEC, CHR 0x97, CHR 0x86, CHR 0xEC, CHR 0x8A, CHR 0xB5, CHR 0xEB, CHR 0x8B, CHR 0x88]
     @ [CHR 0xEB, CHR 0x8B, CHR 0xA4]
     @ ''.''"

definition MSG_NO_QUESTION_TEXT :: string where
  "MSG_NO_QUESTION_TEXT =
     ''(''
     @ [CHR 0xEC, CHR 0xA7, CHR 0x88, CHR 0xEB, CHR 0xAC, CHR 0xB8]
     @ '' ''
     @ [CHR 0xEB, CHR 0x82, CHR 0xB4, CHR 0xEC, CHR 0x9A, CHR 0xA9]
     @ '' ''
     @ [CHR 0xEC, CHR 0x97, CHR 0x86, CHR 0xEC, CHR 0x9D, CHR 0x8C]
     @ '')''"

definition MSG_REPLY_STORED :: string where
  "MSG_REPLY_STORED =
     [CHR 0xEC, CHR 0x9D, CHR 0x91, CHR 0xEB, CHR 0x8B, CHR 0xB5, CHR 0xEC, CHR 0x9D, CHR 0x84]
     @ '' ''
     @ [CHR 0xEC, CHR 0xA0, CHR 0x91, CHR 0xEC, CHR 0x88, CHR 0x98, CHR 0xED, CHR 0x96, CHR 0x88]
     @ [CHR 0xEC, CHR 0x8A, CHR 0xB5, CHR 0xEB, CHR 0x8B, CHR 0x88, CHR 0xEB, CHR 0x8B, CHR 0xA4]
     @ ''.''"

text \<open>
  \<^verbatim>\<open>QUERY_KEYWORDS\<close>: \<^verbatim>\<open>pending\<close>, the Korean word for "question" (U+C9C8 U+BB38) and
  \<^verbatim>\<open>?\<close>.
\<close>

definition QUERY_KEYWORDS :: "string list" where
  "QUERY_KEYWORDS = [''pending'', [CHR 0xEC, CHR 0xA7, CHR 0x88, CHR 0xEB, CHR 0xAC, CHR 0xB8], ''?'']"

text \<open>
  \<^verbatim>\<open>appUserId ?? kakaoUserId ?? req.body?.user_key\<close> and
  \<^verbatim>\<open>utterance ?? req.body?.text ?? ''\<close>: \<^verbatim>\<open>??\<close> passes over \<^verbatim>\<open>undefined\<close> and
  \<^verbatim>\<open>null\<close> only.
\<close>

definition extractUserKey :: "WebhookBody \<Rightarrow> string option" where
  "extractUserKey body =
     (case appUserId body of
        Some a \<Rightarrow> Some a
      | None \<Rightarrow> (case kakaoUserId body of Some k \<Rightarrow> Some k | None \<Rightarrow> user_key body))"

definition extractUserText :: "WebhookBody \<Rightarrow> string" where
  "extractUserText body =
     (case utterance body of
        Some u \<Rightarrow> u
      | None \<Rightarrow> (case wb_text body of Some t \<Rightarrow> t | None \<Rightarrow> []))"

text \<open>
  User resolution (the block that sets \<^verbatim>\<open>userId\<close>). In multi-user mode the two lookups
  run in turn; a user they do not find is served globally when the key is the configured
  fixed key, and is sent a link code otherwise. In single-user mode only the fixed key is
  let in. \<open>Resolved userId\<close> carries the value of the variable \<^verbatim>\<open>userId\<close> with which the
  handler goes on.
\<close>

datatype Resolution = Resolved "string option" | Unlinked string | Rejected

definition resolveUser :: "Config \<Rightarrow> WebhookEnv \<Rightarrow> string \<Rightarrow> Resolution" where
  "resolveUser cfg env userKey =
     (if isMultiUserMode cfg then
        let userId1 = (case getUserIdByKakaoUserKey env userKey of Throws \<Rightarrow> None | Returns r \<Rightarrow> r);
            userId2 = (if \<not> truthy userId1
                       then (case getUserIdByChatbotUserId env userKey of
                               Throws \<Rightarrow> userId1
                             | Returns r \<Rightarrow> r)
                       else userId1)
        in if \<not> truthy userId2 \<and> FIXED_USER_KEY cfg \<noteq> [] \<and> userKey = FIXED_USER_KEY cfg
           then Resolved None
           else if \<not> truthy userId2 then Unlinked (createLinkCode env userKey)
           else Resolved userId2
      else if userKey \<noteq> FIXED_USER_KEY cfg then Rejected
      else Resolved None)"

definition normalizeText :: "JsRuntime \<Rightarrow> string \<Rightarrow> string" where
  "normalizeText js s = toLowerCase js (trim js s)"

definition isQueryMode :: "JsRuntime \<Rightarrow> string \<Rightarrow> bool" where
  "isQueryMode js userText = (normalizeText js userText \<in> set QUERY_KEYWORDS)"

text \<open>
  The query branch's template: the question's text, or a fixed text when the session has
  no question, and one quick reply for each choice when the list is not empty.
\<close>

definition queryTemplate :: "Session \<Rightarrow> KakaoTemplate" where
  "queryTemplate session =
     (let question = pending_question session;
          questionText = (case question of Some q \<Rightarrow> q_text q | None \<Rightarrow> MSG_NO_QUESTION_TEXT)
      in \<lparr>simpleText = questionText,
          quickReplies =
            (case question of
               None \<Rightarrow> None
             | Some q \<Rightarrow>
                 (case choices q of
                    None \<Rightarrow> None
                  | Some cs \<Rightarrow>
                      if cs = [] then None
                      else Some (map (\<lambda>c. \<lparr>label = c, action = ''message'', messageText = c\<rparr>) cs)))\<rparr>)"

text \<open>
  The answer branch's classification. \<^verbatim>\<open>find\<close> returns the first choice whose trimmed,
  lower-cased form is the normalised text; \<^verbatim>\<open>if (matched)\<close> then tests the string it
  returned, and the empty string is falsy.
\<close>

definition classifyReply :: "JsRuntime \<Rightarrow> Session \<Rightarrow> string \<Rightarrow> ReplyType \<times> string option" where
  "classifyReply js session normalizedText =
     (case pending_question session of
        None \<Rightarrow> (TEXT, None)
      | Some q \<Rightarrow>
          (case choices q of
             None \<Rightarrow> (TEXT, None)
           | Some cs \<Rightarrow>
               if cs = [] then (TEXT, None)
               else (case find (\<lambda>c. normalizeText js c = normalizedText) cs of
                       None \<Rightarrow> (TEXT, None)
                     | Some matched \<Rightarrow> if matched \<noteq> [] then (CHOICE, Some matched) else (TEXT, None))))"

text \<open>
  The reply the answer branch hands to \<^verbatim>\<open>addReply\<close>: the classification of the
  normalised text, and the raw text unless it is empty (\<^verbatim>\<open>userText || undefined\<close>).
\<close>

definition answerReply :: "JsRuntime \<Rightarrow> Session \<Rightarrow> string \<Rightarrow> WebhookEnv \<Rightarrow> Reply" where
  "answerReply js session userText env =
     (let (replyType, matched) = classifyReply js session (normalizeText js userText)
      in \<lparr>reply_id = uuid_string (generated_reply_id env),
          r_type = replyType,
          r_text = (if userText = [] then None else Some userText),
          choice = matched,
          r_created_at = now_reply env\<rparr>)"

text \<open>
  \<^verbatim>\<open>userId ? findMostRecentWaitingSessionForUser(userId) : findMostRecentWaitingSession()\<close>:
  the scoped scan for a truthy \<^verbatim>\<open>userId\<close>, the global one otherwise.
\<close>

definition selectSession :: "store \<Rightarrow> string option \<Rightarrow> (string \<times> Session) option" where
  "selectSession ss userId =
     (case userId of
        None \<Rightarrow> findMostRecentWaitingSession ss
      | Some u \<Rightarrow>
          if u = [] then findMostRecentWaitingSession ss
          else findMostRecentWaitingSessionForUser ss u)"

definition webhook_kakao ::
  "JsRuntime \<Rightarrow> Config \<Rightarrow> ServerState \<Rightarrow> WebhookBody \<Rightarrow> WebhookEnv \<Rightarrow> KakaoTemplate \<times> ServerState" where
  "webhook_kakao js cfg st body env =
     (let st0 = st\<lparr>webhookCallCount := webhookCallCount st + 1,
                   lastWebhookAt := Some (now_webhook env)\<rparr>;
          userText = extractUserText body
      in case extractUserKey body of
           None \<Rightarrow> (kakaoResponse MSG_NO_USER_KEY, st0)
         | Some userKey \<Rightarrow>
             if userKey = [] then (kakaoResponse MSG_NO_USER_KEY, st0)
             else
               (case resolveUser cfg env userKey of
                  Unlinked linkCode \<Rightarrow>
                    (kakaoResponse (MSG_LINK_PREFIX @ linkCode @ MSG_LINK_SUFFIX), st0)
                | Rejected \<Rightarrow> (kakaoResponse MSG_REJECTED_USER, st0)
                | Resolved userId \<Rightarrow>
                    (case selectSession (sessions st0) userId of
                       None \<Rightarrow> (kakaoResponse MSG_NO_WAITING_SESSION, st0)
                     | Some (k, session) \<Rightarrow>
                         if isQueryMode js userText then (queryTemplate session, st0)
                         else
                           (kakaoResponse MSG_REPLY_STORED,
                            st0\<lparr>sessions :=
                              store_update (sessions st0) k
                                (addReply session (answerReply js session userText env)
                                   (now_added env))\<rparr>))))"

subsection \<open>Runs of the server\<close>

text \<open>
  The handlers run to completion one at a time: the question handler and the first part of
  the reply handler are synchronous, and the webhook touches the store only after its last
  \<^verbatim>\<open>await\<close> (before it, it only counts the call). A run of the server is therefore a
  sequence of requests, each with the values it reads from its environment, applied in
  order to the empty store. The timer callbacks of the reply handler only read.
\<close>

datatype Request =
    PostQuestion string Auth QuestionsBody QuestionsEnv
  | GetReplies string "string option" "string option" RepliesEnv
  | Webhook WebhookBody WebhookEnv

definition initial_state :: ServerState where
  "initial_state = \<lparr>sessions = [], webhookCallCount = 0, lastWebhookAt = None\<rparr>"

fun step :: "JsRuntime \<Rightarrow> Config \<Rightarrow> ServerState \<Rightarrow> Request \<Rightarrow> ServerState" where
  "step js cfg st (PostQuestion sid auth body env) =
     st\<lparr>sessions := snd (post_questions (sessions st) sid auth body env)\<rparr>"
| "step js cfg st (GetReplies sid sinceId wait_sec env) =
     st\<lparr>sessions := snd (snd (get_replies js (sessions st) sid sinceId wait_sec env))\<rparr>"
| "step js cfg st (Webhook body env) = snd (webhook_kakao js cfg st body env)"

definition run :: "JsRuntime \<Rightarrow> Config \<Rightarrow> Request list \<Rightarrow> ServerState" where
  "run js cfg reqs = foldl (step js cfg) initial_state reqs"

subsection \<open>Example requests\<close>

text \<open>
  Concrete requests and environments on which the theorems below are evaluated: the
  scenario of a deployment question with the choices \<^verbatim>\<open>Yes\<close> and \<^verbatim>\<open>No\<close>, in
  single-user mode (\<open>ex_cfgA\<close>) and in multi-user mode (\<open>ex_cfgB\<close>).
\<close>

definition ex_cfgA :: Config where
  "ex_cfgA = \<lparr>FIXED_USER_KEY = ''kakao-1'', DDB_TABLE = []\<rparr>"

definition ex_cfgB :: Config where
  "ex_cfgB = \<lparr>FIXED_USER_KEY = ''kakao-1'', DDB_TABLE = ''tokens''\<rparr>"

definition ex_static :: Auth where
  "ex_static = \<lparr>user_id = ''static-token'', auth_method = static_token\<rparr>"

definition ex_cognito :: "string \<Rightarrow> Auth" where
  "ex_cognito u = \<lparr>user_id = u, auth_method = cognito_jwt\<rparr>"

definition ex_body :: "string list option \<Rightarrow> string option \<Rightarrow> QuestionsBody" where
  "ex_body cs target = \<lparr>body_text = Some ''Deploy?'', body_choices = cs,
     body_timeout_sec = None, body_severity = Some WARNING, body_metadata = None,
     target_user_id = target\<rparr>"

definition ex_qenv :: "string \<Rightarrow> timestamp \<Rightarrow> QuestionsEnv" where
  "ex_qenv mid t = \<lparr>now_created = t, now_updated = t, generated_message_id = make_uuid mid,
     now_question = t, now_pending = t\<rparr>"

definition ex_renv :: "timestamp \<Rightarrow> RepliesEnv" where
  "ex_renv t = \<lparr>poll_now_created = t, poll_now_updated = t, date_now = 1000\<rparr>"

definition ex_wbody :: "string \<Rightarrow> string \<Rightarrow> WebhookBody" where
  "ex_wbody key u = \<lparr>utterance = Some u, appUserId = None, kakaoUserId = Some key,
     user_key = None, wb_text = None\<rparr>"

text \<open>
  A directory that knows the chat identity \<^verbatim>\<open>kakao-A\<close> as \<^verbatim>\<open>userA\<close> and
  \<^verbatim>\<open>kakao-B\<close> as \<^verbatim>\<open>userB\<close>.
\<close>

definition ex_directory :: "string \<Rightarrow> Lookup" where
  "ex_directory key =
     (if key = ''kakao-A'' then Returns (Some ''userA'')
      else if key = ''kakao-B'' then Returns (Some ''userB'')
      else Returns None)"

definition ex_wenv :: "string \<Rightarrow> timestamp \<Rightarrow> WebhookEnv" where
  "ex_wenv rid t = \<lparr>getUserIdByKakaoUserKey = ex_directory,
     getUserIdByChatbotUserId = (\<lambda>_. Returns None), createLinkCode = (\<lambda>_. ''A1B2C3''),
     now_webhook = t, generated_reply_id = make_uuid rid, now_reply = t, now_added = t\<rparr>"

definition ex_t1 :: timestamp where "ex_t1 = ''2026-01-01T00:00:01.000Z''"

definition ex_t2 :: timestamp where "ex_t2 = ''2026-01-01T00:00:02.000Z''"

definition ex_t3 :: timestamp where "ex_t3 = ''2026-01-01T00:00:03.000Z''"

definition ex_reply :: "string \<Rightarrow> string \<Rightarrow> timestamp \<Rightarrow> Reply" where
  "ex_reply rid txt t = \<lparr>reply_id = rid, r_type = TEXT, r_text = Some txt, choice = None,
     r_created_at = t\<rparr>"

text \<open>
  The session a first post of \<open>ex_body cs None\<close> with the static token leaves behind.
\<close>

definition ex_waiting :: "string \<Rightarrow> string \<Rightarrow> string list option \<Rightarrow> timestamp \<Rightarrow> Session" where
  "ex_waiting sid mid cs t = \<lparr>session_id = sid, status = WAITING_USER,
     pending_question = Some \<lparr>message_id = mid, q_text = ''Deploy?'', choices = cs,
       timeout_sec = None, severity = WARNING, metadata = None, q_created_at = t\<rparr>,
     replies = [], created_at = t, updated_at = t, owner_user_id = None\<rparr>"



definition ex_session :: "string \<Rightarrow> SessionStatus \<Rightarrow> Reply list \<Rightarrow> Session" where
  "ex_session sid st rs = \<lparr>session_id = sid, status = st, pending_question = None,
     replies = rs, created_at = ex_t1, updated_at = ex_t2, owner_user_id = None\<rparr>"

subsection \<open>Invariants used in the proofs\<close>

text \<open>
  An entry of the store is in order when its key is the session's own \<^verbatim>\<open>session_id\<close> and
  it holds a question exactly when it is \<^verbatim>\<open>WAITING_USER\<close>; a store is in order when its
  keys are distinct, as a \<^verbatim>\<open>Map\<close>'s are, and every entry is in order.
\<close>

definition session_ok :: "string \<times> Session \<Rightarrow> bool" where
  "session_ok e =
     (session_id (snd e) = fst e \<and> (pending_question (snd e) \<noteq> None) = (status (snd e) = WAITING_USER))"

definition store_ok :: "store \<Rightarrow> bool" where
  "store_ok ss = (distinct (map fst ss) \<and> list_all session_ok ss)"

text \<open>
  A reply is in order when its id is not empty and, if it is a \<^verbatim>\<open>CHOICE\<close>, the choice
  it records does not normalise to a query keyword.
\<close>

definition reply_ok :: "JsRuntime \<Rightarrow> Reply \<Rightarrow> bool" where
  "reply_ok js r =
     (reply_id r \<noteq> [] \<and>
      (case choice r of
         None \<Rightarrow> True
       | Some c \<Rightarrow> if r_type r = CHOICE then normalizeText js c \<notin> set QUERY_KEYWORDS else True))"

definition replies_ok :: "JsRuntime \<Rightarrow> store \<Rightarrow> bool" where
  "replies_ok js ss = list_all (\<lambda>e. list_all (reply_ok js) (replies (snd e))) ss"

section \<open>Properties\<close>

lemmas model_defs = run_def initial_state_def post_questions_def get_replies_def
  webhook_kakao_def getOrCreateSession_def setPendingQuestion_def addReply_def
  store_update_def truthy_def extractUserKey_def extractUserText_def resolveUser_def
  isMultiUserMode_def selectSession_def findMostRecentWaitingSession_def
  findMostRecentWaitingSessionForUser_def isQueryMode_def normalizeText_def
  QUERY_KEYWORDS_def classifyReply_def answerReply_def queryTemplate_def kakaoResponse_def
  collectReplies_def waitSec_def Let_def make_uuid_inverse

lemmas ascii_defs = ascii_js_def ascii_trim_def ascii_toLowerCase_def ascii_lower_char_def
  is_space_def ascii_parseInt_def is_digit_def digit_value_def digits_value_def

subsection \<open>The store stays in order\<close>

lemma map_fst_store_update: "map fst (store_update ss k s) = map fst ss"
  by (induction ss) (auto simp: store_update_def)

lemma set_store_update:
  "e \<in> set (store_update ss k s) \<Longrightarrow> e \<in> set ss \<or> e = (k, s)"
  by (auto simp: store_update_def split: if_splits)

lemma store_ok_update:
  assumes "store_ok ss" and "session_ok (k, s)"
  shows "store_ok (store_update ss k s)"
  using assms set_store_update[of _ ss k s]
  by (auto simp: store_ok_def map_fst_store_update list_all_iff)

lemma store_ok_lookup:
  "store_ok ss \<Longrightarrow> map_of ss k = Some s \<Longrightarrow> session_ok (k, s)"
  by (auto simp: store_ok_def list_all_iff dest: map_of_SomeD)

lemma getOrCreateSession_existing:
  "map_of ss sid = Some s \<Longrightarrow> getOrCreateSession ss sid st0 owner t1 t2 = (s, ss)"
  by (simp add: getOrCreateSession_def)

lemma getOrCreateSession_new:
  "map_of ss sid = None \<Longrightarrow> getOrCreateSession ss sid st0 owner t1 t2 =
     (\<lparr>session_id = sid, status = st0, pending_question = None, replies = [],
        created_at = t1, updated_at = t2, owner_user_id = owner\<rparr>,
      ss @ [(sid, \<lparr>session_id = sid, status = st0, pending_question = None, replies = [],
        created_at = t1, updated_at = t2, owner_user_id = owner\<rparr>)])"
  by (simp add: getOrCreateSession_def Let_def)

lemma store_update_append_new:
  "map_of ss k = None \<Longrightarrow> store_update (ss @ [(k, s0)]) k s = ss @ [(k, s)]"
proof -
  assume "map_of ss k = None"
  then have "k \<notin> fst ` set ss" by (simp add: map_of_eq_None_iff)
  then have "store_update ss k s = ss"
    by (induction ss) (auto simp: store_update_def)
  then show ?thesis by (simp add: store_update_def)
qed

lemma post_questions_store_ok:
  assumes "store_ok ss"
  shows "store_ok (snd (post_questions ss sid auth body env))"
proof (cases "map_of ss sid")
  case None
  then have fresh: "sid \<notin> fst ` set ss" by (simp add: map_of_eq_None_iff)
  have "store_ok (ss @ [(sid, s)])" if "session_ok (sid, s)" for s
    using assms that fresh by (auto simp: store_ok_def)
  then show ?thesis
    using assms None
    by (auto simp: post_questions_def getOrCreateSession_new store_update_append_new Let_def
        setPendingQuestion_def session_ok_def)
next
  case (Some s)
  from store_ok_lookup[OF assms Some] have ok: "session_ok (sid, s)" .
  have "store_ok (store_update ss sid (setPendingQuestion s q t))" for q t
    using assms ok by (intro store_ok_update) (auto simp: session_ok_def setPendingQuestion_def)
  then show ?thesis
    using assms Some
    by (auto simp: post_questions_def getOrCreateSession_existing Let_def)
qed

lemma get_replies_store_ok:
  assumes "store_ok ss"
  shows "store_ok (snd (snd (get_replies js ss sid sinceId wait_sec env)))"
proof (cases "map_of ss sid")
  case None
  then have fresh: "sid \<notin> fst ` set ss" by (simp add: map_of_eq_None_iff)
  then show ?thesis
    using assms None
    by (auto simp: get_replies_def getOrCreateSession_new Let_def store_ok_def session_ok_def)
next
  case (Some s)
  then show ?thesis
    using assms by (auto simp: get_replies_def getOrCreateSession_existing Let_def)
qed

lemma scanWaiting_mem:
  "scanWaiting latest rest = Some (k, s) \<Longrightarrow>
     latest = Some (k, s) \<or> ((k, s) \<in> set rest \<and> status s = WAITING_USER)"
proof (induction rest arbitrary: latest)
  case Nil
  then show ?case by simp
next
  case (Cons e rest)
  obtain k1 s1 where e: "e = (k1, s1)" by (cases e)
  from Cons.prems e consider
      (skip) "scanWaiting latest rest = Some (k, s)"
    | (take) "status s1 = WAITING_USER" "scanWaiting (Some (k1, s1)) rest = Some (k, s)"
    by (auto split: if_splits option.splits)
  then show ?case
  proof cases
    case skip
    from Cons.IH[OF skip] show ?thesis by auto
  next
    case take
    from Cons.IH[OF take(2)] take(1) e show ?thesis by auto
  qed
qed

lemma scanWaitingForUser_mem:
  "scanWaitingForUser userId latest rest = Some (k, s) \<Longrightarrow>
     latest = Some (k, s) \<or> ((k, s) \<in> set rest \<and> status s = WAITING_USER \<and> owner_user_id s = Some userId)"
proof (induction rest arbitrary: latest)
  case Nil
  then show ?case by simp
next
  case (Cons e rest)
  obtain k1 s1 where e: "e = (k1, s1)" by (cases e)
  from Cons.prems e consider
      (skip) "scanWaitingForUser userId latest rest = Some (k, s)"
    | (take) "status s1 = WAITING_USER" "owner_user_id s1 = Some userId"
             "scanWaitingForUser userId (Some (k1, s1)) rest = Some (k, s)"
    by (auto split: if_splits option.splits)
  then show ?case
  proof cases
    case skip
    from Cons.IH[OF skip] show ?thesis by auto
  next
    case take
    from Cons.IH[OF take(3)] take(1,2) e show ?thesis by auto
  qed
qed

lemma selectSession_mem:
  "selectSession ss userId = Some (k, s) \<Longrightarrow> (k, s) \<in> set ss \<and> status s = WAITING_USER"
  using scanWaiting_mem[of None ss k s] scanWaitingForUser_mem[of _ None ss k s]
  by (auto simp: selectSession_def findMostRecentWaitingSession_def
      findMostRecentWaitingSessionForUser_def split: option.splits if_splits)

text \<open>The webhook either leaves the store alone or records one reply in the selected session.\<close>

lemma webhook_kakao_sessions:
  "sessions (snd (webhook_kakao js cfg st body env)) = sessions st \<or>
   (\<exists>k s userId. selectSession (sessions st) userId = Some (k, s)
      \<and> \<not> isQueryMode js (extractUserText body)
      \<and> sessions (snd (webhook_kakao js cfg st body env)) =
          store_update (sessions st) k
            (addReply s (answerReply js s (extractUserText body) env) (now_added env)))"
  by (auto simp: webhook_kakao_def Let_def split: option.splits Resolution.splits)

lemma webhook_kakao_store_ok:
  assumes "store_ok (sessions st)"
  shows "store_ok (sessions (snd (webhook_kakao js cfg st body env)))"
proof -
  have "store_ok (store_update (sessions st) k (addReply s r t))"
    if "selectSession (sessions st) userId = Some (k, s)" for k s userId r t
  proof (rule store_ok_update[OF assms])
    from selectSession_mem[OF that] assms have "session_ok (k, s)"
      by (auto simp: store_ok_def list_all_iff)
    then show "session_ok (k, addReply s r t)"
      by (simp add: session_ok_def addReply_def)
  qed
  with assms webhook_kakao_sessions[of js cfg st body env] show ?thesis by auto
qed

lemma step_store_ok:
  "store_ok (sessions st) \<Longrightarrow> store_ok (sessions (step js cfg st req))"
  by (cases req) (simp_all add: post_questions_store_ok get_replies_store_ok
      webhook_kakao_store_ok)

lemma foldl_step_store_ok:
  "store_ok (sessions st) \<Longrightarrow> store_ok (sessions (foldl (step js cfg) st reqs))"
  by (induction reqs arbitrary: st) (simp_all add: step_store_ok)

lemma run_store_ok: "store_ok (sessions (run js cfg reqs))"
  unfolding run_def by (rule foldl_step_store_ok) (simp add: initial_state_def store_ok_def)

subsection \<open>Recorded replies stay in order\<close>

lemma classifyReply_cases:
  "classifyReply js s n = (TEXT, None) \<or>
   (\<exists>q cs m. pending_question s = Some q \<and> choices q = Some cs \<and> m \<in> set cs \<and> m \<noteq> []
      \<and> normalizeText js m = n \<and> classifyReply js s n = (CHOICE, Some m))"
  by (auto simp: classifyReply_def find_Some_iff split: option.splits)

lemma answerReply_ok:
  assumes "\<not> isQueryMode js u"
  shows "reply_ok js (answerReply js s u env)"
  using assms classifyReply_cases[of js s "normalizeText js u"]
    uuid_string[of "generated_reply_id env"]
  by (auto simp: reply_ok_def answerReply_def isQueryMode_def)

lemma replies_ok_update:
  assumes "replies_ok js ss" and "list_all (reply_ok js) (replies s)"
  shows "replies_ok js (store_update ss k s)"
  unfolding replies_ok_def list_all_iff
proof (intro ballI)
  fix e r
  assume e: "e \<in> set (store_update ss k s)" and r: "r \<in> set (replies (snd e))"
  from set_store_update[OF e] show "reply_ok js r"
  proof
    assume "e \<in> set ss"
    with assms(1) r show ?thesis by (auto simp: replies_ok_def list_all_iff)
  next
    assume "e = (k, s)"
    with assms(2) r show ?thesis by (auto simp: list_all_iff)
  qed
qed

lemma post_questions_replies_ok:
  assumes "replies_ok js ss"
  shows "replies_ok js (snd (post_questions ss sid auth body env))"
proof (cases "map_of ss sid")
  case None
  then show ?thesis
    using assms
    by (auto simp: post_questions_def getOrCreateSession_new store_update_append_new Let_def
        setPendingQuestion_def replies_ok_def)
next
  case (Some s)
  then have "(sid, s) \<in> set ss" by (rule map_of_SomeD)
  with assms have "list_all (reply_ok js) (replies s)"
    by (auto simp: replies_ok_def list_all_iff)
  then have "replies_ok js (store_update ss sid (setPendingQuestion s q t))" for q t
    using assms by (intro replies_ok_update) (simp_all add: setPendingQuestion_def)
  then show ?thesis
    using assms Some
    by (auto simp: post_questions_def getOrCreateSession_existing Let_def)
qed

lemma get_replies_replies_ok:
  assumes "replies_ok js ss"
  shows "replies_ok js (snd (snd (get_replies js' ss sid sinceId wait_sec env)))"
  using assms
  by (cases "map_of ss sid")
     (auto simp: get_replies_def getOrCreateSession_new getOrCreateSession_existing Let_def
        replies_ok_def)

lemma webhook_kakao_replies_ok:
  assumes "replies_ok js (sessions st)"
  shows "replies_ok js (sessions (snd (webhook_kakao js cfg st body env)))"
proof -
  have "replies_ok js (store_update (sessions st) k (addReply s (answerReply js s u env) t))"
    if "selectSession (sessions st) userId = Some (k, s)" and "\<not> isQueryMode js u"
    for k s userId u t
  proof (rule replies_ok_update[OF assms])
    from selectSession_mem[OF that(1)] assms have "list_all (reply_ok js) (replies s)"
      by (auto simp: replies_ok_def list_all_iff)
    with answerReply_ok[OF that(2)]
    show "list_all (reply_ok js) (replies (addReply s (answerReply js s u env) t))"
      by (simp add: addReply_def)
  qed
  with assms webhook_kakao_sessions[of js cfg st body env] show ?thesis by auto
qed

lemma step_replies_ok:
  "replies_ok js (sessions st) \<Longrightarrow> replies_ok js (sessions (step js cfg st req))"
  by (cases req)
     (simp_all add: post_questions_replies_ok get_replies_replies_ok webhook_kakao_replies_ok)

lemma foldl_step_replies_ok:
  "replies_ok js (sessions st) \<Longrightarrow> replies_ok js (sessions (foldl (step js cfg) st reqs))"
  by (induction reqs arbitrary: st) (simp_all add: step_replies_ok)

lemma run_replies_ok: "replies_ok js (sessions (run js cfg reqs))"
  unfolding run_def by (rule foldl_step_replies_ok) (simp add: initial_state_def replies_ok_def)

subsection \<open>The store primitives\<close>

text \<open>
  C2. \<^verbatim>\<open>addReply\<close> appends the reply at the end of the session's replies, clears the
  pending question, sets the status to \<^verbatim>\<open>RESOLVED\<close> and sets \<^verbatim>\<open>updated_at\<close> to the
  clock reading, and changes no other field. Nothing is assumed of the session: it holds
  for one that is not \<^verbatim>\<open>WAITING_USER\<close> and has no pending question as well.
\<close>

theorem addReply_resolves_unconditionally: "replies (addReply session reply now) = replies session @ [reply]
   \<and> pending_question (addReply session reply now) = None
   \<and> status (addReply session reply now) = RESOLVED
   \<and> updated_at (addReply session reply now) = now
   \<and> session_id (addReply session reply now) = session_id session
   \<and> created_at (addReply session reply now) = created_at session
   \<and> owner_user_id (addReply session reply now) = owner_user_id session"
  by (simp add: addReply_def)

text \<open>An \<^verbatim>\<open>IDLE\<close> session with no pending question is resolved all the same.\<close>

theorem addReply_resolves_unconditionally_witness:
  "status (ex_session ''S1'' IDLE []) = IDLE \<and> pending_question (ex_session ''S1'' IDLE []) = None
   \<and> replies (addReply (ex_session ''S1'' IDLE []) (ex_reply ''r-1'' ''ok'' ex_t2) ex_t3) = [ex_reply ''r-1'' ''ok'' ex_t2]
   \<and> pending_question (addReply (ex_session ''S1'' IDLE []) (ex_reply ''r-1'' ''ok'' ex_t2) ex_t3) = None
   \<and> status (addReply (ex_session ''S1'' IDLE []) (ex_reply ''r-1'' ''ok'' ex_t2) ex_t3) = RESOLVED
   \<and> updated_at (addReply (ex_session ''S1'' IDLE []) (ex_reply ''r-1'' ''ok'' ex_t2) ex_t3) = ex_t3"
  using addReply_resolves_unconditionally[of "ex_session ''S1'' IDLE []" "ex_reply ''r-1'' ''ok'' ex_t2" ex_t3]
  by (simp add: ex_session_def)

text \<open>
  C5 says that posting a question to a session id never seen creates the session. The
  handler creates it only after its two checks: on an empty store, a post by \<^verbatim>\<open>userA\<close>
  that names \<^verbatim>\<open>userB\<close> as its target is answered \<^verbatim>\<open>FORBIDDEN\<close> and a post with an
  empty text is answered \<^verbatim>\<open>BAD_REQUEST\<close>, and the store stays empty.
\<close>

theorem rejected_post_creates_no_session:
  "post_questions [] ''S1'' (ex_cognito ''userA'') (ex_body None (Some ''userB''))
      (ex_qenv ''m-1'' ex_t1) = (FORBIDDEN, [])
   \<and> post_questions [] ''S1'' ex_static ((ex_body None None)\<lparr>body_text := Some []\<rparr>)
      (ex_qenv ''m-1'' ex_t1) = (BAD_REQUEST, [])
   \<and> map_of ([] :: store) ''S1'' = None"
  by (simp add: model_defs ex_static_def ex_cognito_def ex_body_def ex_qenv_def ex_t1_def)

text \<open>
  C5, amended. A question post that passes the handler's two checks (the body has a
  non-empty text and a severity, and a Cognito caller names no target user other than
  itself), on a session id the store does not hold, is answered 201 and adds a session that
  is \<^verbatim>\<open>WAITING_USER\<close> and holds the question; a poll on a session id the store does not
  hold adds a session that is \<^verbatim>\<open>IDLE\<close> with no replies, and has nothing to answer at
  once; and \<^verbatim>\<open>getOrCreateSession\<close> on a session id the store holds returns that session
  and the store unchanged, whatever initial status and owner it is given.
\<close>

theorem implicit_creation:
  "(map_of ss sid = None \<and> truthy (body_text body) \<and> body_severity body \<noteq> None
      \<and> \<not> (auth_method auth = cognito_jwt \<and> truthy (target_user_id body)
            \<and> Some (user_id auth) \<noteq> target_user_id body)
     \<longrightarrow> (\<exists>s q. post_questions ss sid auth body env =
                  (Created sid (uuid_string (generated_message_id env)) WAITING_USER, ss @ [(sid, s)])
           \<and> session_id s = sid \<and> status s = WAITING_USER \<and> replies s = []
           \<and> pending_question s = Some q
           \<and> message_id q = uuid_string (generated_message_id env)))
   \<and> (map_of ss sid = None
     \<longrightarrow> get_replies js ss sid sinceId wait_sec renv =
          (None, date_now renv + waitSec js wait_sec * 1000,
           ss @ [(sid, \<lparr>session_id = sid, status = IDLE, pending_question = None, replies = [],
                        created_at = poll_now_created renv, updated_at = poll_now_updated renv,
                        owner_user_id = None\<rparr>)]))
   \<and> (map_of ss sid = Some session
     \<longrightarrow> getOrCreateSession ss sid initialStatus ownerUserId t_created t_updated = (session, ss))"
  by (auto simp: post_questions_def get_replies_def getOrCreateSession_new
      getOrCreateSession_existing store_update_append_new setPendingQuestion_def
      collectReplies_def Let_def split: option.splits)

theorem implicit_creation_witness:
  "post_questions [] ''S1'' ex_static (ex_body None None) (ex_qenv ''m-1'' ex_t1)
     = (Created ''S1'' ''m-1'' WAITING_USER, [(''S1'', ex_waiting ''S1'' ''m-1'' None ex_t1)])
   \<and> get_replies ascii_js [] ''S2'' None None (ex_renv ex_t1)
     = (None, 26000,
        [(''S2'', \<lparr>session_id = ''S2'', status = IDLE, pending_question = None, replies = [],
            created_at = ex_t1, updated_at = ex_t1, owner_user_id = None\<rparr>)])
   \<and> getOrCreateSession [(''S1'', ex_waiting ''S1'' ''m-1'' None ex_t1)] ''S1'' IDLE
        (Some ''userB'') ex_t3 ex_t3
     = (ex_waiting ''S1'' ''m-1'' None ex_t1, [(''S1'', ex_waiting ''S1'' ''m-1'' None ex_t1)])"
  using implicit_creation[where ss = "[]" and sid = "''S1''" and auth = ex_static
      and body = "ex_body None None" and env = "ex_qenv ''m-1'' ex_t1"]
    implicit_creation[where ss = "[]" and sid = "''S2''" and js = ascii_js and sinceId = None
      and wait_sec = None and renv = "ex_renv ex_t1"]
    implicit_creation[where ss = "[(''S1'', ex_waiting ''S1'' ''m-1'' None ex_t1)]"
      and sid = "''S1''" and session = "ex_waiting ''S1'' ''m-1'' None ex_t1"
      and initialStatus = IDLE and ownerUserId = "Some ''userB''" and t_created = ex_t3
      and t_updated = ex_t3]
  by (simp add: model_defs ex_static_def ex_body_def ex_qenv_def ex_renv_def ex_t1_def
      ex_t3_def ex_waiting_def)

subsection \<open>The scoped scan\<close>

lemma scanWaitingForUser_Some_start:
  "scanWaitingForUser userId (Some p) rest \<noteq> None"
proof (induction rest arbitrary: p)
  case Nil
  show ?case by simp
next
  case (Cons e rest)
  obtain k1 s1 where e: "e = (k1, s1)" by (cases e)
  obtain k0 l where p: "p = (k0, l)" by (cases p)
  show ?case unfolding e p using Cons.IH by simp
qed

lemma scanWaitingForUser_None:
  "scanWaitingForUser userId None rest = None \<longleftrightarrow>
     (\<forall>(k, s) \<in> set rest. \<not> (status s = WAITING_USER \<and> owner_user_id s = Some userId))"
proof (induction rest)
  case Nil
  show ?case by simp
next
  case (Cons e rest)
  obtain k1 s1 where e: "e = (k1, s1)" by (cases e)
  show ?case unfolding e using Cons.IH scanWaitingForUser_Some_start[of userId "(k1, s1)" rest]
    by simp
qed

lemma scanWaitingForUser_latest_le:
  "scanWaitingForUser userId (Some (k0, l)) rest = Some (k, s) \<Longrightarrow> updated_at l \<le> updated_at s"
proof (induction rest arbitrary: k0 l)
  case Nil
  then show ?case by simp
next
  case (Cons e rest)
  obtain k' session where e: "e = (k', session)" by (cases e)
  from Cons.prems e consider
      (skip) "scanWaitingForUser userId (Some (k0, l)) rest = Some (k, s)"
    | (take) "updated_at l < updated_at session"
             "scanWaitingForUser userId (Some (k', session)) rest = Some (k, s)"
    by (auto split: if_splits)
  then show ?case
  proof cases
    case skip
    then show ?thesis by (rule Cons.IH)
  next
    case take
    from Cons.IH[OF take(2)] take(1) show ?thesis by simp
  qed
qed

lemma scanWaitingForUser_max:
  "scanWaitingForUser userId latest rest = Some (k, s) \<Longrightarrow> (k', s') \<in> set rest \<Longrightarrow>
     status s' = WAITING_USER \<Longrightarrow> owner_user_id s' = Some userId \<Longrightarrow>
     updated_at s' \<le> updated_at s"
proof (induction rest arbitrary: latest)
  case Nil
  then show ?case by simp
next
  case (Cons e rest)
  obtain k1 s1 where e: "e = (k1, s1)" by (cases e)
  show ?case
  proof (cases "(k', s') = e")
    case False
    with Cons.prems(2) have mem: "(k', s') \<in> set rest" by simp
    from Cons.prems(1) e obtain latest' where "scanWaitingForUser userId latest' rest = Some (k, s)"
      by (auto split: if_splits option.splits)
    from Cons.IH[OF this mem Cons.prems(3,4)] show ?thesis .
  next
    case True
    with e have eq: "k1 = k'" "s1 = s'" by simp_all
    show ?thesis
    proof (cases latest)
      case None
      with Cons.prems(1,3,4) e eq
      have "scanWaitingForUser userId (Some (k', s')) rest = Some (k, s)" by simp
      then show ?thesis by (rule scanWaitingForUser_latest_le)
    next
      case (Some p)
      obtain k0 l where p: "p = (k0, l)" by (cases p)
      show ?thesis
      proof (cases "updated_at l < updated_at s'")
        case True
        with Cons.prems(1,3,4) e eq Some p
        have "scanWaitingForUser userId (Some (k', s')) rest = Some (k, s)" by simp
        then show ?thesis by (rule scanWaitingForUser_latest_le)
      next
        case False
        with Cons.prems(1,3,4) e eq Some p
        have "scanWaitingForUser userId (Some (k0, l)) rest = Some (k, s)" by simp
        then have "updated_at l \<le> updated_at s" by (rule scanWaitingForUser_latest_le)
        with False show ?thesis by simp
      qed
    qed
  qed
qed

text \<open>
  C6. The user-scoped scan returns nothing exactly when the store holds no session that
  is \<^verbatim>\<open>WAITING_USER\<close> and owned by the given user, whatever other users' sessions it
  holds; and a session it returns is an entry of the store, is \<^verbatim>\<open>WAITING_USER\<close>, is
  owned by that user, and no waiting session of that user has a later \<^verbatim>\<open>updated_at\<close>.
  It is the scan the webhook runs for a message resolved to a user.
\<close>

theorem findMostRecentWaitingSessionForUser_scoped_max:
  "(findMostRecentWaitingSessionForUser ss userId = None \<longleftrightarrow>
      (\<forall>(k, s) \<in> set ss. \<not> (status s = WAITING_USER \<and> owner_user_id s = Some userId)))
   \<and> (\<forall>k s. findMostRecentWaitingSessionForUser ss userId = Some (k, s) \<longrightarrow>
        (k, s) \<in> set ss \<and> status s = WAITING_USER \<and> owner_user_id s = Some userId \<and>
        (\<forall>(k', s') \<in> set ss. status s' = WAITING_USER \<and> owner_user_id s' = Some userId
            \<longrightarrow> updated_at s' \<le> updated_at s))
   \<and> (userId \<noteq> [] \<longrightarrow>
        selectSession ss (Some userId) = findMostRecentWaitingSessionForUser ss userId)"
  unfolding findMostRecentWaitingSessionForUser_def selectSession_def
  using scanWaitingForUser_None[of userId ss] scanWaitingForUser_mem[of userId None ss]
    scanWaitingForUser_max[of userId None ss]
  by fastforce

text \<open>
  With a waiting session of \<^verbatim>\<open>userA\<close> and a later one of \<^verbatim>\<open>userB\<close>, the scan for
  \<^verbatim>\<open>userA\<close> returns the former; with the latter alone it returns nothing.
\<close>

theorem findMostRecentWaitingSessionForUser_scoped_max_witness:
  "map_option fst (findMostRecentWaitingSessionForUser
      (sessions (run ascii_js ex_cfgB
        [PostQuestion ''S1'' (ex_cognito ''userA'') (ex_body None None) (ex_qenv ''m-1'' ex_t1),
         PostQuestion ''S2'' (ex_cognito ''userB'') (ex_body None None) (ex_qenv ''m-2'' ex_t2)]))
      ''userA'') = Some ''S1''
   \<and> findMostRecentWaitingSessionForUser
      (sessions (run ascii_js ex_cfgB
        [PostQuestion ''S2'' (ex_cognito ''userB'') (ex_body None None) (ex_qenv ''m-2'' ex_t2)]))
      ''userA'' = None"
  using findMostRecentWaitingSessionForUser_scoped_max
    [of "sessions (run ascii_js ex_cfgB
        [PostQuestion ''S1'' (ex_cognito ''userA'') (ex_body None None) (ex_qenv ''m-1'' ex_t1),
         PostQuestion ''S2'' (ex_cognito ''userB'') (ex_body None None) (ex_qenv ''m-2'' ex_t2)])" "''userA''"]
  by (simp add: model_defs ex_cfgB_def ex_cognito_def ex_body_def ex_qenv_def ex_t1_def ex_t2_def)

subsection \<open>Reachable states\<close>

text \<open>
  C4. In every state the server reaches by any sequence of question posts, reply polls and
  webhook deliveries, the store has one entry for each session id, and each session holds a
  pending question if and only if its status is \<^verbatim>\<open>WAITING_USER\<close>. The pending question
  is one nullable field of the session, so a session holds at most one at any time.
\<close>

theorem reachable_pending_iff_waiting:
  "distinct (map fst (sessions (run js cfg reqs))) \<and>
   (\<forall>(k, s) \<in> set (sessions (run js cfg reqs)).
      session_id s = k \<and> ((pending_question s \<noteq> None) = (status s = WAITING_USER)))"
  using run_store_ok[of js cfg reqs]
  by (auto simp: store_ok_def session_ok_def list_all_iff)

text \<open>
  A run with two posts to \<^verbatim>\<open>S2\<close> (the second is refused), a poll that creates
  \<^verbatim>\<open>S3\<close>, and an answer that resolves the most recent waiting session.
\<close>

theorem reachable_pending_iff_waiting_witness:
  "map (\<lambda>(k, s). (k, session_id s, status s, map_option message_id (pending_question s)))
     (sessions (run ascii_js ex_cfgA
        [PostQuestion ''S1'' ex_static (ex_body (Some [''Yes'', ''No'']) None) (ex_qenv ''m-1'' ex_t1),
         GetReplies ''S3'' None None (ex_renv ex_t1),
         PostQuestion ''S2'' ex_static (ex_body None None) (ex_qenv ''m-2'' ex_t2),
         PostQuestion ''S2'' ex_static (ex_body None None) (ex_qenv ''m-3'' ex_t3),
         Webhook (ex_wbody ''kakao-1'' ''yes'') (ex_wenv ''r-1'' ex_t3)]))
   = [(''S1'', ''S1'', WAITING_USER, Some ''m-1''), (''S3'', ''S3'', IDLE, None),
      (''S2'', ''S2'', RESOLVED, None)]"
  using reachable_pending_iff_waiting[of ascii_js ex_cfgA
        "[PostQuestion ''S1'' ex_static (ex_body (Some [''Yes'', ''No'']) None) (ex_qenv ''m-1'' ex_t1),
         GetReplies ''S3'' None None (ex_renv ex_t1),
         PostQuestion ''S2'' ex_static (ex_body None None) (ex_qenv ''m-2'' ex_t2),
         PostQuestion ''S2'' ex_static (ex_body None None) (ex_qenv ''m-3'' ex_t3),
         Webhook (ex_wbody ''kakao-1'' ''yes'') (ex_wenv ''r-1'' ex_t3)]"]
  by (simp add: model_defs ex_cfgA_def ex_static_def ex_body_def ex_qenv_def ex_renv_def
      ex_wbody_def ex_directory_def ex_wenv_def ex_t1_def ex_t2_def ex_t3_def ascii_defs)

subsection \<open>Question intake\<close>

text \<open>
  C1 says that every question post on a session that holds a pending question is answered
  with the conflict. The handler first validates the body and checks the target user, and
  answers 400 or 403 before it looks at the session. Here \<^verbatim>\<open>S1\<close> holds the pending
  question \<^verbatim>\<open>m-1\<close>: a post by the Cognito caller \<^verbatim>\<open>userA\<close> that names \<^verbatim>\<open>userB\<close>
  as its target is answered \<^verbatim>\<open>FORBIDDEN\<close>, and a post with an empty text is answered
  \<^verbatim>\<open>BAD_REQUEST\<close>; neither is the conflict.
\<close>

theorem pending_post_rejected_before_conflict:
  "sessions (run ascii_js ex_cfgA
      [PostQuestion ''S1'' ex_static (ex_body None None) (ex_qenv ''m-1'' ex_t1)])
     = [(''S1'', ex_waiting ''S1'' ''m-1'' None ex_t1)]
   \<and> pending_question (ex_waiting ''S1'' ''m-1'' None ex_t1) \<noteq> None
   \<and> post_questions [(''S1'', ex_waiting ''S1'' ''m-1'' None ex_t1)] ''S1''
        (ex_cognito ''userA'') (ex_body None (Some ''userB'')) (ex_qenv ''m-2'' ex_t2)
     = (FORBIDDEN, [(''S1'', ex_waiting ''S1'' ''m-1'' None ex_t1)])
   \<and> post_questions [(''S1'', ex_waiting ''S1'' ''m-1'' None ex_t1)] ''S1''
        ex_static ((ex_body None None)\<lparr>body_text := Some []\<rparr>) (ex_qenv ''m-2'' ex_t2)
     = (BAD_REQUEST, [(''S1'', ex_waiting ''S1'' ''m-1'' None ex_t1)])
   \<and> FORBIDDEN \<noteq> PENDING_EXISTS \<and> BAD_REQUEST \<noteq> PENDING_EXISTS"
  by (simp add: model_defs ex_cfgA_def ex_static_def ex_cognito_def ex_body_def ex_qenv_def
      ex_t1_def ex_t2_def ex_waiting_def)

text \<open>
  C1, amended. In every reachable state, for a session that holds a pending question, a
  question post on that session leaves the whole store as it is, so the pending question
  with its \<^verbatim>\<open>message_id\<close>, the status, the replies and \<^verbatim>\<open>updated_at\<close> are unchanged;
  and the post is answered with the conflict \<^verbatim>\<open>PENDING_EXISTS\<close> whenever it passes the
  two checks that come before the session is looked at: the body has a non-empty text and
  a severity, and a Cognito caller names no target user other than itself. A post that
  fails the first check is answered \<^verbatim>\<open>BAD_REQUEST\<close>, and one that fails the second
  \<^verbatim>\<open>FORBIDDEN\<close>.
\<close>

theorem post_question_conflict_when_pending:
  assumes "map_of (sessions (run js cfg reqs)) sid = Some session"
      and "pending_question session \<noteq> None"
  shows "snd (post_questions (sessions (run js cfg reqs)) sid auth body env) = sessions (run js cfg reqs)
    \<and> (truthy (body_text body) \<and> body_severity body \<noteq> None
         \<and> \<not> (auth_method auth = cognito_jwt \<and> truthy (target_user_id body)
               \<and> Some (user_id auth) \<noteq> target_user_id body)
       \<longrightarrow> fst (post_questions (sessions (run js cfg reqs)) sid auth body env) = PENDING_EXISTS)
    \<and> (\<not> truthy (body_text body) \<or> body_severity body = None
       \<longrightarrow> fst (post_questions (sessions (run js cfg reqs)) sid auth body env) = BAD_REQUEST)
    \<and> (truthy (body_text body) \<and> body_severity body \<noteq> None
         \<and> auth_method auth = cognito_jwt \<and> truthy (target_user_id body)
         \<and> Some (user_id auth) \<noteq> target_user_id body
       \<longrightarrow> fst (post_questions (sessions (run js cfg reqs)) sid auth body env) = FORBIDDEN)"
proof -
  from store_ok_lookup[OF run_store_ok assms(1)] assms(2)
  have "status session = WAITING_USER" by (simp add: session_ok_def)
  with assms show ?thesis
    by (auto simp: post_questions_def getOrCreateSession_existing Let_def)
qed

text \<open>
  A second post to \<^verbatim>\<open>S1\<close> is refused, and the store still holds the first question,
  \<^verbatim>\<open>m-1\<close>.
\<close>

theorem post_question_conflict_when_pending_witness:
  "map_option message_id (pending_question (ex_waiting ''S1'' ''m-1'' None ex_t1)) = Some ''m-1''
   \<and> post_questions
        (sessions (run ascii_js ex_cfgA
           [PostQuestion ''S1'' ex_static (ex_body None None) (ex_qenv ''m-1'' ex_t1)]))
        ''S1'' ex_static (ex_body (Some [''Yes'', ''No'']) None) (ex_qenv ''m-2'' ex_t2)
      = (PENDING_EXISTS, [(''S1'', ex_waiting ''S1'' ''m-1'' None ex_t1)])"
proof -
  have h1: "map_of (sessions (run ascii_js ex_cfgA
           [PostQuestion ''S1'' ex_static (ex_body None None) (ex_qenv ''m-1'' ex_t1)])) ''S1''
        = Some (ex_waiting ''S1'' ''m-1'' None ex_t1)"
    by (simp add: model_defs ex_cfgA_def ex_static_def ex_body_def ex_qenv_def ex_t1_def
        ex_t2_def ex_waiting_def)
  have h2: "pending_question (ex_waiting ''S1'' ''m-1'' None ex_t1) \<noteq> None"
    by (simp add: ex_cfgA_def ex_static_def ex_body_def ex_qenv_def ex_t1_def ex_t2_def
        ex_waiting_def)
  from post_question_conflict_when_pending[OF h1 h2, of ex_static
      "ex_body (Some [''Yes'', ''No'']) None" "ex_qenv ''m-2'' ex_t2"]
  show ?thesis
    by (simp add: model_defs ex_cfgA_def ex_static_def ex_body_def ex_qenv_def ex_t1_def
        ex_t2_def ex_waiting_def)
qed

subsection \<open>Reply retrieval\<close>


lemma findIndex_None: "findIndex p xs = None \<longleftrightarrow> (\<forall>x \<in> set xs. \<not> p x)"
  by (induction xs) (auto split: option.splits)





lemma waitSec_cases:
  "waitSec js wait_sec =
     (case (case wait_sec of None \<Rightarrow> None | Some s \<Rightarrow> parseInt js s) of
        None \<Rightarrow> 25
      | Some v \<Rightarrow> if v = 0 then 25 else min (max v 0) 60)"
  by (simp add: waitSec_def Let_def split: option.splits)

text \<open>
  C8. The claim says a supplied value of 0 gives an effective wait of 0 seconds,
  \<open>min (max 0 0) 60\<close>. The handler gives 25: \<^verbatim>\<open>parseInt("0", 10) || 25\<close> is 25, since 0
  is falsy.
\<close>

theorem waitSec_zero_is_default: "waitSec ascii_js (Some ''0'') = 25 \<and> min (max (0::int) 0) 60 = 0"
  by (simp add: waitSec_def ascii_defs)

theorem waitSec_zero_is_default_witness: "waitSec ascii_js (Some ''0'') \<noteq> 0"
  using waitSec_zero_is_default by simp

subsection \<open>The webhook: answers\<close>

lemma classifyReply_match:
  assumes "pending_question s = Some q" and "choices q = Some cs"
      and "find (\<lambda>c. normalizeText js c = n) cs = Some m" and "m \<noteq> []"
  shows "classifyReply js s n = (CHOICE, Some m)"
  using assms by (auto simp: classifyReply_def)

lemma classifyReply_no_match:
  assumes "pending_question s = None \<or>
           (\<exists>q. pending_question s = Some q \<and>
              (choices q = None \<or> (\<exists>cs. choices q = Some cs \<and> (\<forall>c \<in> set cs. normalizeText js c \<noteq> n))))"
  shows "classifyReply js s n = (TEXT, None)"
proof -
  have "find (\<lambda>c. normalizeText js c = n) cs = None"
    if "\<forall>c \<in> set cs. normalizeText js c \<noteq> n" for cs
    using that by (simp add: find_None_iff)
  with assms show ?thesis
    by (auto simp: classifyReply_def split: option.splits)
qed

text \<open>
  The comparison ignores case and surrounding white space: with the choices \<^verbatim>\<open>Yes\<close>
  and \<^verbatim>\<open>No\<close>, the texts \<^verbatim>\<open>yes\<close>, \<^verbatim>\<open>YES\<close> and \<^verbatim>\<open>Yes\<close> are the
  choice \<^verbatim>\<open>Yes\<close>, and \<^verbatim>\<open>yess\<close> is free text.
\<close>

lemma classifyReply_examples:
  "classifyReply ascii_js (ex_waiting ''S1'' ''m-1'' (Some [''Yes'', ''No'']) ex_t1)
      (normalizeText ascii_js ''yes'') = (CHOICE, Some ''Yes'')"
  "classifyReply ascii_js (ex_waiting ''S1'' ''m-1'' (Some [''Yes'', ''No'']) ex_t1)
      (normalizeText ascii_js ''YES'') = (CHOICE, Some ''Yes'')"
  "classifyReply ascii_js (ex_waiting ''S1'' ''m-1'' (Some [''Yes'', ''No'']) ex_t1)
      (normalizeText ascii_js ''Yes'') = (CHOICE, Some ''Yes'')"
  "classifyReply ascii_js (ex_waiting ''S1'' ''m-1'' (Some [''Yes'', ''No'']) ex_t1)
      (normalizeText ascii_js ''yess'') = (TEXT, None)"
  by (simp_all add: model_defs ex_t1_def ex_waiting_def ascii_defs)

text \<open>
  C3. The claim says an utterance whose normalised form equals a choice is recorded as a
  \<^verbatim>\<open>CHOICE\<close> with that choice. The handler tests the string \<^verbatim>\<open>find\<close> returned for
  truthiness, and the empty string is falsy: with the choices \<^verbatim>\<open>Yes\<close> and the empty
  string, an empty utterance matches the empty choice and is recorded as \<^verbatim>\<open>TEXT\<close>
  with no choice.
\<close>

theorem empty_choice_is_recorded_as_text:
  "sessions (run ascii_js ex_cfgA
      [PostQuestion ''S1'' ex_static (ex_body (Some [''Yes'', '''']) None) (ex_qenv ''m-1'' ex_t1)])
     = [(''S1'', ex_waiting ''S1'' ''m-1'' (Some [''Yes'', '''']) ex_t1)]
   \<and> normalizeText ascii_js '''' = ''''
   \<and> sessions (run ascii_js ex_cfgA
      [PostQuestion ''S1'' ex_static (ex_body (Some [''Yes'', '''']) None) (ex_qenv ''m-1'' ex_t1),
       Webhook (ex_wbody ''kakao-1'' '''') (ex_wenv ''r-1'' ex_t2)])
     = [(''S1'', \<lparr>session_id = ''S1'', status = RESOLVED, pending_question = None,
           replies = [\<lparr>reply_id = ''r-1'', r_type = TEXT, r_text = None, choice = None,
                        r_created_at = ex_t2\<rparr>],
           created_at = ex_t1, updated_at = ex_t2, owner_user_id = None\<rparr>)]"
  by (simp add: model_defs ex_cfgA_def ex_static_def ex_body_def ex_qenv_def ex_wbody_def
      ex_directory_def ex_wenv_def ex_t1_def ex_t2_def ex_waiting_def ascii_defs)

text \<open>The one reply recorded is a \<^verbatim>\<open>TEXT\<close>, where the claim has a \<^verbatim>\<open>CHOICE\<close>.\<close>

theorem empty_choice_is_recorded_as_text_witness:
  "map r_type (replies (snd (hd (sessions (run ascii_js ex_cfgA
      [PostQuestion ''S1'' ex_static (ex_body (Some [''Yes'', '''']) None) (ex_qenv ''m-1'' ex_t1),
       Webhook (ex_wbody ''kakao-1'' '''') (ex_wenv ''r-1'' ex_t2)]))))) = [TEXT]
   \<and> TEXT \<noteq> CHOICE"
  using empty_choice_is_recorded_as_text by simp

subsection \<open>The webhook: queries\<close>

lemma webhook_kakao_query_sessions:
  "isQueryMode js (extractUserText body) \<Longrightarrow>
     sessions (snd (webhook_kakao js cfg st body env)) = sessions st"
  by (auto simp: webhook_kakao_def Let_def split: option.splits Resolution.splits)

lemma webhook_kakao_query_response:
  assumes "isQueryMode js (extractUserText body)"
      and "extractUserKey body = Some userKey" and "userKey \<noteq> []"
      and "resolveUser cfg env userKey = Resolved userId"
      and "selectSession (sessions st) userId = Some (k, session)"
  shows "fst (webhook_kakao js cfg st body env) = queryTemplate session"
  using assms by (simp add: webhook_kakao_def Let_def)

lemma foldl_query_sessions:
  "isQueryMode js (extractUserText body) \<Longrightarrow>
     sessions (foldl (\<lambda>s env. snd (webhook_kakao js cfg s body env)) st envs) = sessions st"
  by (induction envs arbitrary: st) (simp_all add: webhook_kakao_query_sessions)

lemma scanWaiting_Some_start: "scanWaiting (Some p) rest \<noteq> None"
proof (induction rest arbitrary: p)
  case Nil
  show ?case by simp
next
  case (Cons e rest)
  obtain k1 s1 where e: "e = (k1, s1)" by (cases e)
  obtain k0 l where p: "p = (k0, l)" by (cases p)
  show ?case unfolding e p using Cons.IH by simp
qed

lemma scanWaiting_None:
  "scanWaiting None rest = None \<longleftrightarrow> (\<forall>(k, s) \<in> set rest. status s \<noteq> WAITING_USER)"
proof (induction rest)
  case Nil
  show ?case by simp
next
  case (Cons e rest)
  obtain k1 s1 where e: "e = (k1, s1)" by (cases e)
  show ?case unfolding e using Cons.IH scanWaiting_Some_start[of "(k1, s1)" rest]
    by simp
qed

lemma selectSession_found_iff:
  "(selectSession ss userId \<noteq> None) =
     (\<exists>(k, s) \<in> set ss. status s = WAITING_USER \<and> (truthy userId \<longrightarrow> owner_user_id s = userId))"
proof (cases "truthy userId")
  case False
  then have "selectSession ss userId = scanWaiting None ss"
    by (auto simp: selectSession_def truthy_def findMostRecentWaitingSession_def
        split: option.splits)
  with False scanWaiting_None[of ss] show ?thesis by auto
next
  case True
  then obtain u where u: "userId = Some u" "u \<noteq> []"
    by (auto simp: truthy_def split: option.splits)
  then have "selectSession ss userId = scanWaitingForUser u None ss"
    by (simp add: selectSession_def findMostRecentWaitingSessionForUser_def)
  with True u scanWaitingForUser_None[of u ss] show ?thesis by auto
qed

text \<open>
  C9 says that a query from a permitted user is answered with the pending question's text
  when a waiting session exists. In multi-user mode the webhook scans only the sessions
  owned by the resolved user. Here the one waiting session, \<^verbatim>\<open>S2\<close>, is owned by
  \<^verbatim>\<open>userB\<close>; the linked user \<^verbatim>\<open>userA\<close> sends \<^verbatim>\<open>pending\<close> and is answered that no
  question is waiting.
\<close>

theorem query_unanswered_when_other_user_waits:
  "sessions (run ascii_js ex_cfgB
      [PostQuestion ''S2'' (ex_cognito ''userB'') (ex_body None None) (ex_qenv ''m-1'' ex_t1)])
     = [(''S2'', (ex_waiting ''S2'' ''m-1'' None ex_t1)\<lparr>owner_user_id := Some ''userB''\<rparr>)]
   \<and> status ((ex_waiting ''S2'' ''m-1'' None ex_t1)\<lparr>owner_user_id := Some ''userB''\<rparr>)
     = WAITING_USER
   \<and> isQueryMode ascii_js (extractUserText (ex_wbody ''kakao-A'' ''pending''))
   \<and> extractUserKey (ex_wbody ''kakao-A'' ''pending'') = Some ''kakao-A''
   \<and> resolveUser ex_cfgB (ex_wenv ''r-1'' ex_t2) ''kakao-A'' = Resolved (Some ''userA'')
   \<and> fst (webhook_kakao ascii_js ex_cfgB
        (run ascii_js ex_cfgB
           [PostQuestion ''S2'' (ex_cognito ''userB'') (ex_body None None) (ex_qenv ''m-1'' ex_t1)])
        (ex_wbody ''kakao-A'' ''pending'') (ex_wenv ''r-1'' ex_t2))
     = kakaoResponse MSG_NO_WAITING_SESSION
   \<and> simpleText (kakaoResponse MSG_NO_WAITING_SESSION) \<noteq> ''Deploy?''"
  by (simp add: model_defs ex_cfgB_def ex_cognito_def ex_body_def ex_qenv_def ex_wbody_def
      ex_directory_def ex_wenv_def ex_t1_def ex_t2_def ex_waiting_def ascii_defs
      MSG_NO_WAITING_SESSION_def)

text \<open>
  C9, amended. For a message whose normalised text is a query keyword, the webhook changes
  no session, once or repeated any number of times with any environments; and when the
  user is permitted and the scan for that user finds a waiting session in a reachable
  state, that session has a pending question and the response carries its text, with one
  quick reply for each of its choices when it has any. The scan finds a session exactly
  when the store holds one that is \<^verbatim>\<open>WAITING_USER\<close> and, for a message resolved to a
  user, is owned by that user.
\<close>

theorem query_mode_read_only:
  assumes "isQueryMode js (extractUserText body)"
  shows "sessions (snd (webhook_kakao js cfg st body env)) = sessions st
    \<and> sessions (foldl (\<lambda>s e. snd (webhook_kakao js cfg s body e)) st envs) = sessions st
    \<and> (extractUserKey body = Some userKey \<and> userKey \<noteq> []
         \<and> resolveUser cfg env userKey = Resolved userId
         \<and> selectSession (sessions (run js cfg reqs)) userId = Some (k, session)
       \<longrightarrow> (\<exists>q. pending_question session = Some q
              \<and> fst (webhook_kakao js cfg (run js cfg reqs) body env) =
                  \<lparr>simpleText = q_text q,
                   quickReplies =
                     (case choices q of
                        None \<Rightarrow> None
                      | Some cs \<Rightarrow>
                          if cs = [] then None
                          else Some (map (\<lambda>c. \<lparr>label = c, action = ''message'', messageText = c\<rparr>) cs))\<rparr>))
    \<and> ((selectSession ss userId \<noteq> None) =
         (\<exists>(k, s) \<in> set ss. status s = WAITING_USER
             \<and> (truthy userId \<longrightarrow> owner_user_id s = userId)))"
proof (intro conjI impI)
  show "(selectSession ss userId \<noteq> None) =
         (\<exists>(k, s) \<in> set ss. status s = WAITING_USER
             \<and> (truthy userId \<longrightarrow> owner_user_id s = userId))"
    by (rule selectSession_found_iff)
next
  show "sessions (snd (webhook_kakao js cfg st body env)) = sessions st"
    using assms by (rule webhook_kakao_query_sessions)
  show "sessions (foldl (\<lambda>s e. snd (webhook_kakao js cfg s body e)) st envs) = sessions st"
    using assms by (rule foldl_query_sessions)
next
  assume h: "extractUserKey body = Some userKey \<and> userKey \<noteq> []
         \<and> resolveUser cfg env userKey = Resolved userId
         \<and> selectSession (sessions (run js cfg reqs)) userId = Some (k, session)"
  then have sel: "selectSession (sessions (run js cfg reqs)) userId = Some (k, session)" by simp
  from selectSession_mem[OF sel] run_store_ok[of js cfg reqs]
  obtain q where q: "pending_question session = Some q"
    by (auto simp: store_ok_def list_all_iff session_ok_def)
  from h assms have "fst (webhook_kakao js cfg (run js cfg reqs) body env) = queryTemplate session"
    by (intro webhook_kakao_query_response) auto
  with q show "\<exists>q. pending_question session = Some q
              \<and> fst (webhook_kakao js cfg (run js cfg reqs) body env) =
                  \<lparr>simpleText = q_text q,
                   quickReplies =
                     (case choices q of
                        None \<Rightarrow> None
                      | Some cs \<Rightarrow>
                          if cs = [] then None
                          else Some (map (\<lambda>c. \<lparr>label = c, action = ''message'', messageText = c\<rparr>) cs))\<rparr>"
    by (simp add: queryTemplate_def Let_def)
qed

text \<open>
  The permitted user asks \<^verbatim>\<open>Pending\<close> twice: the answer shows the question and its two
  choices, and the store still holds the waiting session.
\<close>

theorem query_mode_read_only_witness:
  "fst (webhook_kakao ascii_js ex_cfgA
      (run ascii_js ex_cfgA
         [PostQuestion ''S1'' ex_static (ex_body (Some [''Yes'', ''No'']) None) (ex_qenv ''m-1'' ex_t1)])
      (ex_wbody ''kakao-1'' '' Pending '') (ex_wenv ''r-1'' ex_t2))
     = \<lparr>simpleText = ''Deploy?'',
        quickReplies = Some [\<lparr>label = ''Yes'', action = ''message'', messageText = ''Yes''\<rparr>,
                             \<lparr>label = ''No'', action = ''message'', messageText = ''No''\<rparr>]\<rparr>
   \<and> sessions (foldl (\<lambda>s e. snd (webhook_kakao ascii_js ex_cfgA s (ex_wbody ''kakao-1'' '' Pending '') e))
        (run ascii_js ex_cfgA
           [PostQuestion ''S1'' ex_static (ex_body (Some [''Yes'', ''No'']) None) (ex_qenv ''m-1'' ex_t1)])
        [ex_wenv ''r-1'' ex_t2, ex_wenv ''r-2'' ex_t3])
     = [(''S1'', ex_waiting ''S1'' ''m-1'' (Some [''Yes'', ''No'']) ex_t1)]"
proof -
  have h: "isQueryMode ascii_js (extractUserText (ex_wbody ''kakao-1'' '' Pending ''))"
    by (simp add: model_defs ex_cfgA_def ex_static_def ex_body_def ex_qenv_def ex_wbody_def
        ex_directory_def ex_wenv_def ex_t1_def ex_t2_def ex_t3_def ex_waiting_def ascii_defs)
  have sel: "extractUserKey (ex_wbody ''kakao-1'' '' Pending '') = Some ''kakao-1'' \<and> ''kakao-1'' \<noteq> []
      \<and> resolveUser ex_cfgA (ex_wenv ''r-1'' ex_t2) ''kakao-1'' = Resolved None
      \<and> selectSession (sessions (run ascii_js ex_cfgA
           [PostQuestion ''S1'' ex_static (ex_body (Some [''Yes'', ''No'']) None) (ex_qenv ''m-1'' ex_t1)])) None
         = Some (''S1'', ex_waiting ''S1'' ''m-1'' (Some [''Yes'', ''No'']) ex_t1)"
    by (simp add: model_defs ex_cfgA_def ex_static_def ex_body_def ex_qenv_def ex_wbody_def
        ex_directory_def ex_wenv_def ex_t1_def ex_t2_def ex_t3_def ex_waiting_def)
  have st: "sessions (run ascii_js ex_cfgA
           [PostQuestion ''S1'' ex_static (ex_body (Some [''Yes'', ''No'']) None) (ex_qenv ''m-1'' ex_t1)])
      = [(''S1'', ex_waiting ''S1'' ''m-1'' (Some [''Yes'', ''No'']) ex_t1)]"
    by (simp add: model_defs ex_cfgA_def ex_static_def ex_body_def ex_qenv_def ex_wbody_def
        ex_directory_def ex_wenv_def ex_t1_def ex_t2_def ex_t3_def ex_waiting_def)
  from query_mode_read_only[OF h, where cfg = ex_cfgA and env = "ex_wenv ''r-1'' ex_t2"
      and envs = "[ex_wenv ''r-1'' ex_t2, ex_wenv ''r-2'' ex_t3]"
      and st = "run ascii_js ex_cfgA
         [PostQuestion ''S1'' ex_static (ex_body (Some [''Yes'', ''No'']) None) (ex_qenv ''m-1'' ex_t1)]"
      and reqs = "[PostQuestion ''S1'' ex_static (ex_body (Some [''Yes'', ''No'']) None) (ex_qenv ''m-1'' ex_t1)]"
      and userKey = "''kakao-1''" and userId = None and k = "''S1''"
      and session = "ex_waiting ''S1'' ''m-1'' (Some [''Yes'', ''No'']) ex_t1"
      and ss = "[(''S1'', ex_waiting ''S1'' ''m-1'' (Some [''Yes'', ''No'']) ex_t1)]"] sel st
  show ?thesis
    by (simp add: ex_waiting_def)
qed

text \<open>
  C10. Let \<open>c\<close> be a string whose normalised form is a query keyword. A message whose
  text is \<open>c\<close> changes no session, so no reply is recorded and a waiting session stays
  waiting; from a permitted user with a waiting session it is answered with the query
  template; and no reachable state holds a \<^verbatim>\<open>CHOICE\<close> reply whose choice is \<open>c\<close>.
\<close>

theorem query_keyword_shadows_choice:
  assumes "normalizeText js c \<in> set QUERY_KEYWORDS"
  shows "(extractUserText body = c \<longrightarrow>
            sessions (snd (webhook_kakao js cfg st body env)) = sessions st)
    \<and> (extractUserText body = c \<and> extractUserKey body = Some userKey \<and> userKey \<noteq> []
         \<and> resolveUser cfg env userKey = Resolved userId
         \<and> selectSession (sessions st) userId = Some (k, session)
       \<longrightarrow> fst (webhook_kakao js cfg st body env) = queryTemplate session)
    \<and> (\<forall>(k', s') \<in> set (sessions (run js cfg reqs)). \<forall>r \<in> set (replies s').
          \<not> (r_type r = CHOICE \<and> choice r = Some c))"
proof (intro conjI impI)
  assume "extractUserText body = c"
  with assms have "isQueryMode js (extractUserText body)" by (simp add: isQueryMode_def)
  then show "sessions (snd (webhook_kakao js cfg st body env)) = sessions st"
    by (rule webhook_kakao_query_sessions)
next
  assume h: "extractUserText body = c \<and> extractUserKey body = Some userKey \<and> userKey \<noteq> []
         \<and> resolveUser cfg env userKey = Resolved userId
         \<and> selectSession (sessions st) userId = Some (k, session)"
  with assms have "isQueryMode js (extractUserText body)" by (simp add: isQueryMode_def)
  with h show "fst (webhook_kakao js cfg st body env) = queryTemplate session"
    by (intro webhook_kakao_query_response) auto
next
  show "\<forall>(k', s') \<in> set (sessions (run js cfg reqs)). \<forall>r \<in> set (replies s').
          \<not> (r_type r = CHOICE \<and> choice r = Some c)"
  proof (intro ballI, clarify)
    fix k' s' r
    assume "(k', s') \<in> set (sessions (run js cfg reqs))" and "r \<in> set (replies s')"
       and "r_type r = CHOICE" and "choice r = Some c"
    with run_replies_ok[of js cfg reqs] have "normalizeText js c \<notin> set QUERY_KEYWORDS"
      by (fastforce simp: replies_ok_def reply_ok_def list_all_iff)
    with assms show False by simp
  qed
qed

text \<open>
  A question offers the choices \<^verbatim>\<open>Pending\<close> and \<^verbatim>\<open>Skip\<close>. The message
  \<^verbatim>\<open>Pending\<close> is answered with the question and changes nothing; the message
  \<^verbatim>\<open>skip\<close> then resolves the session with the choice \<^verbatim>\<open>Skip\<close>.
\<close>

theorem query_keyword_shadows_choice_witness:
  "normalizeText ascii_js ''Pending'' = ''pending''
   \<and> webhook_kakao ascii_js ex_cfgA
        \<lparr>sessions = [(''S1'', ex_waiting ''S1'' ''m-1'' (Some [''Pending'', ''Skip'']) ex_t1)],
          webhookCallCount = 0, lastWebhookAt = None\<rparr>
        (ex_wbody ''kakao-1'' ''Pending'') (ex_wenv ''r-1'' ex_t2)
     = (\<lparr>simpleText = ''Deploy?'',
          quickReplies = Some [\<lparr>label = ''Pending'', action = ''message'', messageText = ''Pending''\<rparr>,
                               \<lparr>label = ''Skip'', action = ''message'', messageText = ''Skip''\<rparr>]\<rparr>,
        \<lparr>sessions = [(''S1'', ex_waiting ''S1'' ''m-1'' (Some [''Pending'', ''Skip'']) ex_t1)],
          webhookCallCount = 1, lastWebhookAt = Some ex_t2\<rparr>)
   \<and> map (\<lambda>(k, s). (k, status s, map (\<lambda>r. (r_type r, choice r)) (replies s)))
        (sessions (run ascii_js ex_cfgA
           [PostQuestion ''S1'' ex_static (ex_body (Some [''Pending'', ''Skip'']) None) (ex_qenv ''m-1'' ex_t1),
            Webhook (ex_wbody ''kakao-1'' ''Pending'') (ex_wenv ''r-1'' ex_t2),
            Webhook (ex_wbody ''kakao-1'' ''skip'') (ex_wenv ''r-2'' ex_t3)]))
     = [(''S1'', RESOLVED, [(CHOICE, Some ''Skip'')])]"
proof -
  have h: "normalizeText ascii_js ''Pending'' \<in> set QUERY_KEYWORDS"
    by (simp add: model_defs ascii_defs)
  from query_keyword_shadows_choice[OF h, where cfg = ex_cfgA
      and body = "ex_wbody ''kakao-1'' ''Pending''" and env = "ex_wenv ''r-1'' ex_t2"
      and st = "\<lparr>sessions = [(''S1'', ex_waiting ''S1'' ''m-1'' (Some [''Pending'', ''Skip'']) ex_t1)],
          webhookCallCount = 0, lastWebhookAt = None\<rparr>"
      and userKey = "''kakao-1''" and userId = None and k = "''S1''"
      and session = "ex_waiting ''S1'' ''m-1'' (Some [''Pending'', ''Skip'']) ex_t1"
      and reqs = "[PostQuestion ''S1'' ex_static (ex_body (Some [''Pending'', ''Skip'']) None) (ex_qenv ''m-1'' ex_t1),
            Webhook (ex_wbody ''kakao-1'' ''Pending'') (ex_wenv ''r-1'' ex_t2),
            Webhook (ex_wbody ''kakao-1'' ''skip'') (ex_wenv ''r-2'' ex_t3)]"]
  show ?thesis
    by (simp add: model_defs ex_cfgA_def ex_static_def ex_body_def ex_qenv_def ex_wbody_def
        ex_directory_def ex_wenv_def ex_t1_def ex_t2_def ex_t3_def ex_waiting_def ascii_defs)
qed

end
